theory Spec2Isabelle
  imports Main
begin

section \<open>Python strings and exceptions\<close>

text \<open>
  A Python \<open>str\<close> is modelled as a \<open>string\<close>: one \<open>char\<close> per code point, so the model
  covers the code points below 256. \<open>s[:n]\<close> is \<open>take n s\<close>.
\<close>

definition py_isspace :: "char \<Rightarrow> bool" where
  \<comment> \<open>\<open>str.isspace\<close> on one code point below 256: TAB..CR, FS..US, space, NEL, NBSP.\<close>
  "py_isspace c =
     (let n = (of_char c :: nat)
      in (9 \<le> n \<and> n \<le> 13) \<or> (28 \<le> n \<and> n \<le> 32) \<or> n = 133 \<or> n = 160)"

definition py_strip :: "string \<Rightarrow> string" where
  \<comment> \<open>\<open>s.strip()\<close>\<close>
  "py_strip s = rev (dropWhile py_isspace (rev (dropWhile py_isspace s)))"

definition py_remove :: "char \<Rightarrow> string \<Rightarrow> string" where
  \<comment> \<open>\<open>s.replace(c, "")\<close> for a one-character \<open>c\<close>\<close>
  "py_remove c s = filter (\<lambda>x. x \<noteq> c) s"

fun py_split :: "char \<Rightarrow> string \<Rightarrow> string list" where
  \<comment> \<open>\<open>s.split(sep)\<close> for a one-character separator\<close>
  "py_split sep [] = [[]]"
| "py_split sep (c # cs) =
     (if c = sep then [] # py_split sep cs
      else (case py_split sep cs of
              w # ws \<Rightarrow> (c # w) # ws
            | [] \<Rightarrow> [[c]]))"

fun string_of_nat :: "nat \<Rightarrow> string" where
  \<comment> \<open>decimal rendering, as an f-string renders an \<open>int\<close> status code\<close>
  "string_of_nat n =
     (if n < 10 then [''0123456789'' ! n]
      else string_of_nat (n div 10) @ [''0123456789'' ! (n mod 10)])"

datatype exn_class =
  KeyError | TypeError | ValueError | FileNotFoundError | ConnectionError | TimeoutError
  | DatabaseError | PlainException

datatype exn =
  HttpError nat string string
    \<comment> \<open>googleapiclient's \<open>HttpError\<close>: \<open>e.resp.status\<close>, the text \<open>f"{e.content}"\<close>, \<open>str(e)\<close>\<close>
  | PyExc exn_class string
    \<comment> \<open>any other exception: its class and \<open>str(e)\<close>\<close>

fun exn_str :: "exn \<Rightarrow> string" where
  "exn_str (HttpError st content txt) = txt"
| "exn_str (PyExc cls txt) = txt"

abbreviation Exception :: "string \<Rightarrow> exn" where
  "Exception msg \<equiv> PyExc PlainException msg"

section \<open>social/config.py\<close>

definition MAX_FILE_SIZE :: nat where
  "MAX_FILE_SIZE = 128 * 1024 * 1024 * 1024"

definition MAX_RETRIES :: nat where
  "MAX_RETRIES = 3"

definition RETRIABLE_STATUS_CODES :: "nat list" where
  "RETRIABLE_STATUS_CODES = [500, 502, 503, 504]"

section \<open>The metadata body of a YouTube upload\<close>

record snippet =
  sn_title :: string
  sn_description :: string
  sn_tags :: "string list"
  sn_categoryId :: string

record status_settings =
  st_privacyStatus :: string
  st_madeForKids :: bool

record request_body =
  body_snippet :: snippet
  body_status :: status_settings

subsection \<open>social/youtube\_uploader.py: the body built by \<open>YouTubeUploader.upload_video\<close>\<close>

definition clean_tags :: "string list \<Rightarrow> string list" where
  \<comment> \<open>\<open>[tag.replace("#", "").strip() for tag in tags if tag.strip()][:50]\<close>\<close>
  "clean_tags tags =
     take 50 (map (\<lambda>tag. py_strip (py_remove (CHR ''#'') tag))
                  (filter (\<lambda>tag. py_strip tag \<noteq> []) tags))"

definition uploader_request_body ::
  "string \<Rightarrow> string \<Rightarrow> string list option \<Rightarrow> string \<Rightarrow> string \<Rightarrow> bool \<Rightarrow> request_body" where
  \<comment> \<open>\<open>tags\<close> is \<open>None\<close> when the caller passes none; \<open>description[:5000] if description else ""\<close>\<close>
  "uploader_request_body title description tags category_id privacy_status made_for_kids =
     \<lparr> body_snippet =
         \<lparr> sn_title = take 100 title,
           sn_description = (if description \<noteq> [] then take 5000 description else []),
           sn_tags = clean_tags (case tags of None \<Rightarrow> [] | Some ts \<Rightarrow> ts),
           sn_categoryId = category_id \<rparr>,
       body_status =
         \<lparr> st_privacyStatus = privacy_status,
           st_madeForKids = made_for_kids \<rparr> \<rparr>"

subsection \<open>social/platform\_integrations.py: the body built by \<open>YouTubeIntegration.post_video\<close>\<close>

record yt_settings =
  ys_category_id :: "string option"
  ys_privacy_status :: "string option"
  ys_made_for_kids :: "bool option"

record post_data =
  pd_title :: "string option"
    \<comment> \<open>\<open>None\<close>: the key is missing, \<open>post_data["title"]\<close> raises\<close>
  pd_description :: "string option option"
    \<comment> \<open>\<open>None\<close>: the key is missing; \<open>Some None\<close>: the value is \<open>None\<close>\<close>
  pd_tags :: "string list option"
  pd_platform_settings :: "yt_settings option"
  pd_video_path :: "string option"

definition empty_settings :: yt_settings where
  "empty_settings = \<lparr> ys_category_id = None, ys_privacy_status = None, ys_made_for_kids = None \<rparr>"

definition get_or :: "'a option \<Rightarrow> 'a \<Rightarrow> 'a" where
  \<comment> \<open>\<open>d.get(key, default)\<close> on a field that may be absent\<close>
  "get_or v d = (case v of None \<Rightarrow> d | Some x \<Rightarrow> x)"

definition post_video_body :: "post_data \<Rightarrow> exn + request_body" where
  "post_video_body pd =
     (let settings = get_or (pd_platform_settings pd) empty_settings
      in case pd_title pd of
           None \<Rightarrow> Inl (PyExc KeyError ''title'')
         | Some title \<Rightarrow>
        (case pd_description pd of
           None \<Rightarrow> Inl (PyExc KeyError ''description'')
         | Some description \<Rightarrow>
        (case pd_tags pd of
           None \<Rightarrow> Inl (PyExc KeyError ''tags'')
         | Some tags \<Rightarrow>
             Inr \<lparr> body_snippet =
                     \<lparr> sn_title = take 100 title,
                       sn_description =
                         (case description of
                            None \<Rightarrow> []
                          | Some d \<Rightarrow> if d \<noteq> [] then take 5000 d else []),
                       sn_tags = map (py_remove (CHR ''#'')) (take 500 tags),
                       sn_categoryId = get_or (ys_category_id settings) ''22'' \<rparr>,
                   body_status =
                     \<lparr> st_privacyStatus = get_or (ys_privacy_status settings) ''private'',
                       st_madeForKids = get_or (ys_made_for_kids settings) False \<rparr> \<rparr>)))"

section \<open>Calls that leave the process\<close>

text \<open>
  The functions below return, beside their result, the list of the calls they made to the
  Google client library and to the network, in order.
\<close>

datatype event =
    EvAuthenticate string "string option"
      \<comment> \<open>\<open>Credentials(token, refresh_token, ...)\<close> and \<open>build\<close> in \<open>authenticate_with_token\<close>\<close>
  | EvRefresh string
      \<comment> \<open>\<open>creds.refresh(Request())\<close> with the refresh token\<close>
  | EvBuild string
      \<comment> \<open>\<open>build(..., credentials=creds)\<close> with the access token the credentials hold\<close>
  | EvInsert request_body
      \<comment> \<open>\<open>videos().insert(body=..., media_body=...)\<close>\<close>
  | EvNextChunk
      \<comment> \<open>\<open>request.next_chunk()\<close>: the resumable session is opened, bytes are sent\<close>
  | EvInitSession request_body
      \<comment> \<open>\<open>session.post(upload_url, ..., json=body)\<close>\<close>
  | EvPutFile string
      \<comment> \<open>\<open>session.put(location, data=video_file)\<close>\<close>
  | EvTokenExchange string
      \<comment> \<open>\<open>requests.post("https://oauth2.googleapis.com/token")\<close> with the code\<close>
  | EvChannelFetch string
      \<comment> \<open>\<open>requests.get(".../youtube/v3/channels")\<close> with the access token\<close>

type_synonym json_object = "(string \<times> string) list"

datatype chunk_outcome =
    Progress
      \<comment> \<open>\<open>next_chunk()\<close> returned \<open>(status, None)\<close>\<close>
  | Response json_object
      \<comment> \<open>\<open>next_chunk()\<close> returned a response that is not \<open>None\<close>\<close>
  | Raises exn
      \<comment> \<open>\<open>next_chunk()\<close> raised\<close>

definition watch_url :: "string \<Rightarrow> string" where
  "watch_url video_id = ''https://www.youtube.com/watch?v='' @ video_id"

section \<open>social/youtube\_uploader.py: \<open>YouTubeUploader.upload_video\<close>\<close>

text \<open>
  The dictionary an upload returns, with the keys its callers read.
\<close>

record upload_result =
  success :: bool
  video_id :: "string option"
  video_url :: "string option"
  error :: "string option"

definition upload_failed :: "string \<Rightarrow> upload_result" where
  \<comment> \<open>\<open>{"success": False, "error": msg}\<close>\<close>
  "upload_failed msg = \<lparr> success = False, video_id = None, video_url = None, error = Some msg \<rparr>"

definition upload_succeeded :: "string \<Rightarrow> upload_result" where
  \<comment> \<open>\<open>{"success": True, "video_id": id, "video_url": ...}\<close>\<close>
  "upload_succeeded vid =
     \<lparr> success = True, video_id = Some vid, video_url = Some (watch_url vid), error = None \<rparr>"

text \<open>
  The loop \<open>while response is None\<close> of the uploader, run against the outcomes of the
  successive \<open>next_chunk()\<close> calls. Every exception is logged and the loop continues. The
  result is \<open>None\<close> when the outcomes are used up and the loop is still running.
\<close>

fun uploader_loop :: "chunk_outcome list \<Rightarrow> event list \<times> json_object option" where
  "uploader_loop [] = ([], None)"
| "uploader_loop (Progress # rest) =
     (case uploader_loop rest of (evs, r) \<Rightarrow> (EvNextChunk # evs, r))"
| "uploader_loop (Response resp # rest) = ([EvNextChunk], Some resp)"
| "uploader_loop (Raises chunk_error # rest) =
     (case uploader_loop rest of (evs, r) \<Rightarrow> (EvNextChunk # evs, r))"

record uploader_world =
  uw_file_size :: "nat option"
    \<comment> \<open>\<open>None\<close>: \<open>os.path.exists(video_path)\<close> is false; else the size in bytes\<close>
  uw_media :: "exn option"
    \<comment> \<open>what \<open>MediaFileUpload(...)\<close> or \<open>videos().insert(...)\<close> raises, if anything\<close>
  uw_chunks :: "chunk_outcome list"
  uw_error_message :: "exn + string option"
    \<comment> \<open>\<open>json.loads(e.content.decode('utf-8'))\<close>, then \<open>.get('error', {}).get('message')\<close>\<close>

definition uploader_upload_video ::
  "uploader_world \<Rightarrow> bool \<Rightarrow> string \<Rightarrow> string \<Rightarrow> string \<Rightarrow> string list option \<Rightarrow> string \<Rightarrow>
   string \<Rightarrow> bool \<Rightarrow> event list \<times> (exn + upload_result) option" where
  \<comment> \<open>\<open>youtube_service\<close>: whether \<open>self.youtube_service\<close> is set\<close>
  "uploader_upload_video w youtube_service video_path title description tags category_id
       privacy_status made_for_kids =
     (if \<not> youtube_service then ([], Some (Inr (upload_failed ''Not authenticated'')))
      else if uw_file_size w = None then
        ([], Some (Inr (upload_failed (''Video file not found: '' @ video_path))))
      else
        let body = uploader_request_body title description tags category_id privacy_status
                     made_for_kids
        in case uw_media w of
             Some (HttpError st content txt) \<Rightarrow>
               (case uw_error_message w of
                  Inl e \<Rightarrow> ([], Some (Inl e))
                | Inr m \<Rightarrow>
                    ([], Some (Inr (upload_failed (''YouTube API error: '' @ get_or m txt)))))
           | Some (PyExc cls txt) \<Rightarrow> ([], Some (Inr (upload_failed txt)))
           | None \<Rightarrow>
               (case uploader_loop (uw_chunks w) of
                  (evs, None) \<Rightarrow> (EvInsert body # evs, None)
                | (evs, Some resp) \<Rightarrow>
                    (EvInsert body # evs,
                     Some (Inr (if resp \<noteq> [] \<and> map_of resp ''id'' \<noteq> None
                                then upload_succeeded (the (map_of resp ''id''))
                                else upload_failed
                                       ''Upload completed but no video ID received'')))))"

section \<open>social/utils.py: \<open>YouTubeAPI.upload_video\<close>\<close>

text \<open>
  The token columns of a \<open>SocialAccount\<close> row; the record of the whole row extends this
  one. Times are seconds on the clock of \<open>datetime.utcnow()\<close>.
\<close>

record credentials =
  access_token :: string
  refresh_token :: "string option"
  token_expires_at :: "int option"

text \<open>
  The loop of \<open>YouTubeAPI.upload_video\<close>, with its retry counter. An \<open>HttpError\<close> whose
  status is retriable is counted and the loop continues until the counter passes
  \<open>MAX_RETRIES\<close>; any other exception leaves the loop at once.
\<close>

fun api_loop :: "nat \<Rightarrow> chunk_outcome list \<Rightarrow> event list \<times> (exn + json_object) option" where
  "api_loop retry [] = ([], None)"
| "api_loop retry (Progress # rest) =
     (case api_loop retry rest of (evs, r) \<Rightarrow> (EvNextChunk # evs, r))"
| "api_loop retry (Response resp # rest) = ([EvNextChunk], Some (Inr resp))"
| "api_loop retry (Raises (HttpError st content txt) # rest) =
     (if st \<in> set RETRIABLE_STATUS_CODES then
        (let err = ''HTTP error '' @ string_of_nat st @ '': '' @ content
         in if retry + 1 > MAX_RETRIES
            then ([EvNextChunk], Some (Inl (Exception (''Max retries exceeded: '' @ err))))
            else (case api_loop (retry + 1) rest of (evs, r) \<Rightarrow> (EvNextChunk # evs, r)))
      else ([EvNextChunk], Some (Inl (HttpError st content txt))))"
| "api_loop retry (Raises (PyExc cls txt) # rest) = ([EvNextChunk], Some (Inl (PyExc cls txt)))"

record api_world =
  aw_file_size :: "nat option"
  aw_creds_expired :: bool
    \<comment> \<open>\<open>creds.expired\<close>, as the google-auth library reports it. \<open>get_youtube_service\<close>
        builds the \<open>Credentials\<close> from the two tokens only and passes no \<open>expiry\<close>; the
        library reports credentials without an expiry as not expired, whatever the column
        \<open>token_expires_at\<close> holds\<close>
  aw_refresh :: "exn + string \<times> int option"
    \<comment> \<open>\<open>creds.refresh(Request())\<close>: raises, or sets \<open>creds.token\<close> and \<open>creds.expiry\<close>\<close>
  aw_build :: "exn option"
  aw_media :: "exn option"
  aw_chunks :: "chunk_outcome list"

definition get_youtube_service ::
  "api_world \<Rightarrow> 'a credentials_scheme \<Rightarrow> 'a credentials_scheme \<times> event list \<times> (exn + string)" where
  \<comment> \<open>returns the account as updated, and the access token of the service's credentials\<close>
  "get_youtube_service w account =
     (if aw_creds_expired w \<and> refresh_token account \<noteq> None \<and> refresh_token account \<noteq> Some []
      then
        (case aw_refresh w of
           Inl e \<Rightarrow> (account, [EvRefresh (the (refresh_token account))], Inl e)
         | Inr (tok, expiry) \<Rightarrow>
             (let account' = account\<lparr> access_token := tok, token_expires_at := expiry \<rparr>
              in case aw_build w of
                   Some e \<Rightarrow>
                     (account', [EvRefresh (the (refresh_token account)), EvBuild tok], Inl e)
                 | None \<Rightarrow>
                     (account', [EvRefresh (the (refresh_token account)), EvBuild tok], Inr tok)))
      else
        (case aw_build w of
           Some e \<Rightarrow> (account, [EvBuild (access_token account)], Inl e)
         | None \<Rightarrow> (account, [EvBuild (access_token account)], Inr (access_token account))))"

definition api_request_body ::
  "string \<Rightarrow> string option \<Rightarrow> string list option \<Rightarrow> string \<Rightarrow> string \<Rightarrow> bool option \<Rightarrow>
   exn + request_body" where
  \<comment> \<open>\<open>description\<close> is \<open>None\<close> when the caller passes \<open>None\<close>: slicing it raises\<close>
  "api_request_body title description tags category_id privacy_status made_for_kids =
     (case description of
        None \<Rightarrow> Inl (PyExc TypeError ''NoneType object is not subscriptable'')
      | Some d \<Rightarrow>
          Inr \<lparr> body_snippet =
                  \<lparr> sn_title = take 100 title,
                    sn_description = take 5000 d,
                    sn_tags = (case tags of None \<Rightarrow> [] | Some ts \<Rightarrow> take 50 ts),
                    sn_categoryId = category_id \<rparr>,
                body_status =
                  \<lparr> st_privacyStatus = privacy_status,
                    st_madeForKids = get_or made_for_kids False \<rparr> \<rparr>)"

text \<open>The body of the \<open>try\<close> block: what it returns, or the exception that leaves it.\<close>

definition api_upload_try ::
  "api_world \<Rightarrow> 'a credentials_scheme \<Rightarrow> string \<Rightarrow> string \<Rightarrow> string option \<Rightarrow>
   string list option \<Rightarrow> string \<Rightarrow> string \<Rightarrow> bool option \<Rightarrow>
   'a credentials_scheme \<times> event list \<times> (exn + upload_result) option" where
  "api_upload_try w account video_path title description tags category_id privacy_status
       made_for_kids =
     (case aw_file_size w of
        None \<Rightarrow>
          (account, [], Some (Inl (PyExc FileNotFoundError (''Video file not found: '' @ video_path))))
      | Some file_size \<Rightarrow>
          if file_size > MAX_FILE_SIZE then
            (account, [],
             Some (Inl (PyExc ValueError ''Video file exceeds YouTube size limit (128GB)'')))
          else
            (case get_youtube_service w account of
               (account', evs, Inl e) \<Rightarrow> (account', evs, Some (Inl e))
             | (account', evs, Inr tok) \<Rightarrow>
            (case api_request_body title description tags category_id privacy_status
                    made_for_kids of
               Inl e \<Rightarrow> (account', evs, Some (Inl e))
             | Inr body \<Rightarrow>
            (case aw_media w of
               Some e \<Rightarrow> (account', evs, Some (Inl e))
             | None \<Rightarrow>
            (case api_loop 0 (aw_chunks w) of
               (cevs, None) \<Rightarrow> (account', evs @ EvInsert body # cevs, None)
             | (cevs, Some (Inl e)) \<Rightarrow> (account', evs @ EvInsert body # cevs, Some (Inl e))
             | (cevs, Some (Inr resp)) \<Rightarrow>
                 (account', evs @ EvInsert body # cevs,
                  Some (if resp \<noteq> [] then
                          (case map_of resp ''id'' of
                             None \<Rightarrow> Inl (Exception ''Upload completed but no video ID returned'')
                           | Some vid \<Rightarrow>
                               if vid \<noteq> [] then Inr (upload_succeeded vid)
                               else Inl (Exception ''Upload completed but no video ID returned''))
                        else Inl (Exception ''Upload failed - no response received''))))))))"

definition api_upload_video ::
  "api_world \<Rightarrow> 'a credentials_scheme \<Rightarrow> string \<Rightarrow> string \<Rightarrow> string option \<Rightarrow>
   string list option \<Rightarrow> string \<Rightarrow> string \<Rightarrow> bool option \<Rightarrow>
   'a credentials_scheme \<times> event list \<times> (exn + upload_result) option" where
  \<comment> \<open>\<open>try: ... except Exception as e: return {"success": False, "error": str(e), ...}\<close>\<close>
  "api_upload_video w account video_path title description tags category_id privacy_status
       made_for_kids =
     (case api_upload_try w account video_path title description tags category_id
             privacy_status made_for_kids of
        (account', evs, None) \<Rightarrow> (account', evs, None)
      | (account', evs, Some (Inl e)) \<Rightarrow> (account', evs, Some (Inr (upload_failed (exn_str e))))
      | (account', evs, Some (Inr r)) \<Rightarrow> (account', evs, Some (Inr r)))"

section \<open>social/platform\_integrations.py: \<open>YouTubeIntegration.post_video\<close>\<close>

record init_response =
  ir_status :: nat
  ir_location :: "string option"
    \<comment> \<open>\<open>resp.headers.get("Location")\<close>\<close>
  ir_text :: "exn + string"
    \<comment> \<open>\<open>await resp.text()\<close>\<close>

record put_response =
  put_status :: nat
  put_json :: "exn + json_object"
    \<comment> \<open>\<open>await resp.json()\<close>\<close>

record pv_world =
  pv_init :: "exn + init_response"
    \<comment> \<open>\<open>session.post(upload_url, headers=..., params=..., json=body)\<close>\<close>
  pv_open :: "exn option"
    \<comment> \<open>what \<open>open(video_path, "rb")\<close> raises, if anything\<close>
  pv_put :: "exn + put_response"
    \<comment> \<open>\<open>session.put(upload_url, headers=..., data=video_file)\<close>\<close>

record publish_result =
  pub_success :: bool
  pub_post_id :: "string option"
  pub_post_url :: "string option"
  pub_error :: "string option"

definition publish_failed :: "string \<Rightarrow> publish_result" where
  "publish_failed msg =
     \<lparr> pub_success = False, pub_post_id = None, pub_post_url = None, pub_error = Some msg \<rparr>"

definition publish_succeeded :: "string \<Rightarrow> publish_result" where
  "publish_succeeded vid =
     \<lparr> pub_success = True, pub_post_id = Some vid, pub_post_url = Some (watch_url vid),
       pub_error = None \<rparr>"

definition upload_video_file :: "pv_world \<Rightarrow> string \<Rightarrow> string \<Rightarrow> event list \<times> (exn + json_object)" where
  \<comment> \<open>\<open>YouTubeIntegration._upload_video_file\<close>\<close>
  "upload_video_file w upload_url video_path =
     (case pv_open w of
        Some e \<Rightarrow> ([], Inl e)
      | None \<Rightarrow>
          (case pv_put w of
             Inl e \<Rightarrow> ([EvPutFile upload_url], Inl e)
           | Inr resp \<Rightarrow>
               if put_status resp = 200 \<or> put_status resp = 201
               then ([EvPutFile upload_url], put_json resp)
               else ([EvPutFile upload_url],
                     Inl (Exception (''Video file upload failed: '' @ string_of_nat (put_status resp))))))"

definition post_video_try :: "pv_world \<Rightarrow> string \<Rightarrow> post_data \<Rightarrow> event list \<times> (exn + publish_result)" where
  \<comment> \<open>the body of the \<open>try\<close> block\<close>
  "post_video_try w token pd =
     (case post_video_body pd of
        Inl e \<Rightarrow> ([], Inl e)
      | Inr body \<Rightarrow>
     (case pv_init w of
        Inl e \<Rightarrow> ([EvInitSession body], Inl e)
      | Inr resp \<Rightarrow>
          if (ir_status resp = 200 \<or> ir_status resp = 201)
             \<and> ir_location resp \<noteq> None \<and> ir_location resp \<noteq> Some []
          then
            (case pd_video_path pd of
               None \<Rightarrow> ([EvInitSession body], Inl (PyExc KeyError ''video_path''))
             | Some video_path \<Rightarrow>
            (case upload_video_file w (the (ir_location resp)) video_path of
               (evs, Inl e) \<Rightarrow> (EvInitSession body # evs, Inl e)
             | (evs, Inr video_result) \<Rightarrow>
            (case map_of video_result ''id'' of
               None \<Rightarrow> (EvInitSession body # evs, Inl (PyExc KeyError ''id''))
             | Some vid \<Rightarrow> (EvInitSession body # evs, Inr (publish_succeeded vid)))))
          else
            (case ir_text resp of
               Inl e \<Rightarrow> ([EvInitSession body], Inl e)
             | Inr err \<Rightarrow>
                 ([EvInitSession body], Inr (publish_failed (''YouTube upload failed: '' @ err))))))"

definition post_video :: "pv_world \<Rightarrow> string \<Rightarrow> post_data \<Rightarrow> event list \<times> (exn + publish_result)" where
  \<comment> \<open>\<open>try: ... except Exception as e: return {"success": False, "error": str(e)}\<close>\<close>
  "post_video w token pd =
     (case post_video_try w token pd of
        (evs, Inl e) \<Rightarrow> (evs, Inr (publish_failed (exn_str e)))
      | (evs, Inr r) \<Rightarrow> (evs, Inr r))"

fun final_outcome :: "chunk_outcome \<Rightarrow> bool" where
  \<comment> \<open>an outcome that ends the loop of \<open>YouTubeAPI.upload_video\<close> whatever the retry counter\<close>
  "final_outcome Progress = False"
| "final_outcome (Response resp) = True"
| "final_outcome (Raises (HttpError st content txt)) = (st \<notin> set RETRIABLE_STATUS_CODES)"
| "final_outcome (Raises (PyExc cls txt)) = True"

fun retried :: "chunk_outcome \<Rightarrow> bool" where
  \<comment> \<open>an outcome after which the loop of \<open>YouTubeAPI.upload_video\<close> calls \<open>next_chunk()\<close> again\<close>
  "retried (Raises (HttpError st content msg)) = (st \<in> set RETRIABLE_STATUS_CODES)"
| "retried _ = False"

section \<open>social/models.py: the \<open>social_accounts\<close> table\<close>

datatype jval = JInt int | JStr string

type_synonym metadata = "(string \<times> jval) list"

text \<open>
  A row of \<open>social_accounts\<close>. The type \<open>'u\<close> is that of \<open>uuid.UUID\<close> values; a column
  that may be \<open>NULL\<close> is an \<open>option\<close>. The table is the list of its rows, and
  \<open>query(...).filter(...).first()\<close> is \<open>find\<close> on that list.
\<close>

record 'u SocialAccount = credentials +
  sa_id :: string
  sa_user_id :: 'u
  sa_platform :: string
  sa_platform_user_id :: "string option"
  sa_platform_username :: "string option"
  sa_platform_email :: "string option"
  sa_display_name :: "string option"
  sa_primary_id :: "string option"
  sa_platform_metadata :: "metadata option"
  sa_is_active :: bool
  sa_is_verified :: bool
  sa_account_status :: string
  sa_connected_at :: "int option"
  sa_last_used_at :: "int option"
  sa_last_token_refresh :: "int option"

fun update_first :: "('a \<Rightarrow> bool) \<Rightarrow> ('a \<Rightarrow> 'a) \<Rightarrow> 'a list \<Rightarrow> 'a list" where
  \<comment> \<open>assignments to the attributes of the object that \<open>first()\<close> returned, once committed\<close>
  "update_first P f [] = []"
| "update_first P f (x # xs) = (if P x then f x # xs else x # update_first P f xs)"

definition truthy :: "string option \<Rightarrow> bool" where
  \<comment> \<open>the truth value of an optional string: neither \<open>None\<close> nor empty\<close>
  "truthy v = (v \<noteq> None \<and> v \<noteq> Some [])"

datatype http_exception = HTTPException nat string

section \<open>social/router.py: the OAuth endpoints\<close>

text \<open>
  Python's \<open>uuid\<close> module is not part of the repository: \<open>str(u)\<close> and
  \<open>uuid.UUID(s)\<close> are parameters of the model.
\<close>

record 'u uuid_module =
  uuid_str :: "'u \<Rightarrow> string"
  uuid_UUID :: "string \<Rightarrow> exn + 'u"

record auth_reply =
  ar_platform :: string
  ar_auth_url :: string
  ar_state :: string

definition oauth_state :: "'u uuid_module \<Rightarrow> 'u \<Rightarrow> 'u \<Rightarrow> string" where
  \<comment> \<open>\<open>f"{current_user.id}:youtube:{uuid.uuid4()}"\<close>\<close>
  "oauth_state lib user_id nonce = uuid_str lib user_id @ '':youtube:'' @ uuid_str lib nonce"

definition initiate_oauth ::
  "'u uuid_module \<Rightarrow> string option \<Rightarrow> string \<Rightarrow> 'u \<Rightarrow> 'u \<Rightarrow> http_exception + auth_reply option" where
  \<comment> \<open>\<open>nonce\<close> is the value of \<open>uuid.uuid4()\<close>; for another platform the function returns \<open>None\<close>\<close>
  "initiate_oauth lib youtube_client_id platform current_user_id nonce =
     (if platform = ''youtube'' then
        (if \<not> truthy youtube_client_id
         then Inl (HTTPException 400 ''YouTube client ID not configured'')
         else
           let redirect_uri = ''http://localhost:8000/social/auth/youtube/callback'';
               scopes = ''https://www.googleapis.com/auth/youtube.upload https://www.googleapis.com/auth/youtube.readonly'';
               state = oauth_state lib current_user_id nonce;
               auth_url = ''https://accounts.google.com/o/oauth2/auth?''
                          @ ''client_id='' @ the youtube_client_id @ ''&''
                          @ ''redirect_uri='' @ redirect_uri @ ''&''
                          @ ''scope='' @ scopes @ ''&''
                          @ ''response_type=code&''
                          @ ''access_type=offline&''
                          @ ''prompt=consent&''
                          @ ''state='' @ state
           in Inr (Some \<lparr> ar_platform = platform, ar_auth_url = auth_url, ar_state = state \<rparr>))
      else Inr None)"

definition parse_state :: "'u uuid_module \<Rightarrow> string \<Rightarrow> exn + 'u \<times> string \<times> string" where
  \<comment> \<open>\<open>user_id_str, platform, request_id = state.split(":")\<close>, then \<open>uuid.UUID(user_id_str)\<close>\<close>
  "parse_state lib state =
     (case py_split (CHR '':'') state of
        [user_id_str, platform, request_id] \<Rightarrow>
          (case uuid_UUID lib user_id_str of
             Inl e \<Rightarrow> Inl e
           | Inr user_id \<Rightarrow> Inr (user_id, platform, request_id))
      | parts \<Rightarrow>
          if length parts < 3
          then Inl (PyExc ValueError (''not enough values to unpack (expected 3, got ''
                                       @ string_of_nat (length parts) @ '')''))
          else Inl (PyExc ValueError ''too many values to unpack (expected 3)''))"

record channel =
  ch_id :: string
  ch_title :: string
  ch_subscriber_count :: int
  ch_video_count :: int
  ch_view_count :: int

definition channel_metadata :: "channel \<Rightarrow> metadata" where
  "channel_metadata ch =
     [(''subscriber_count'', JInt (ch_subscriber_count ch)),
      (''video_count'', JInt (ch_video_count ch)),
      (''view_count'', JInt (ch_view_count ch)),
      (''channel_type'', JStr ''personal'')]"

definition is_linked :: "'u \<Rightarrow> string \<Rightarrow> 'u SocialAccount \<Rightarrow> bool" where
  \<comment> \<open>the filter of the query for an existing account\<close>
  "is_linked user_id channel_id a =
     (sa_user_id a = user_id \<and> sa_platform a = ''youtube'' \<and> sa_primary_id a = Some channel_id)"

definition relinked ::
  "channel \<Rightarrow> string \<Rightarrow> string option \<Rightarrow> int option \<Rightarrow> int \<Rightarrow> 'u SocialAccount \<Rightarrow> 'u SocialAccount" where
  \<comment> \<open>the assignments of the branch \<open>if existing_account\<close>\<close>
  "relinked ch access refresh expires_in now a =
     a\<lparr> access_token := access,
        refresh_token := refresh,
        token_expires_at := Some (now + get_or expires_in 3600),
        sa_last_token_refresh := Some now,
        sa_platform_metadata := Some (channel_metadata ch) \<rparr>"

definition new_youtube_account ::
  "'u \<Rightarrow> channel \<Rightarrow> string \<Rightarrow> string option \<Rightarrow> int option \<Rightarrow> int \<Rightarrow> string \<Rightarrow> 'u SocialAccount" where
  \<comment> \<open>the row of the branch \<open>else\<close>; \<open>new_id\<close> is the default \<open>uuid.uuid4\<close> of the column \<open>id\<close>\<close>
  "new_youtube_account user_id ch access refresh expires_in now new_id =
     \<lparr> access_token = access,
       refresh_token = refresh,
       token_expires_at = Some (now + get_or expires_in 3600),
       sa_id = new_id,
       sa_user_id = user_id,
       sa_platform = ''youtube'',
       sa_platform_user_id = Some (ch_id ch),
       sa_platform_username = Some (ch_title ch),
       sa_platform_email = None,
       sa_display_name = Some (ch_title ch),
       sa_primary_id = Some (ch_id ch),
       sa_platform_metadata = Some (channel_metadata ch),
       sa_is_active = True,
       sa_is_verified = True,
       sa_account_status = ''active'',
       sa_connected_at = Some now,
       sa_last_used_at = Some now,
       sa_last_token_refresh = Some now \<rparr>"

definition link_channel ::
  "'u \<Rightarrow> channel \<Rightarrow> string \<Rightarrow> string option \<Rightarrow> int option \<Rightarrow> int \<Rightarrow> string \<Rightarrow>
   'u SocialAccount list \<Rightarrow> 'u SocialAccount list" where
  \<comment> \<open>router.py lines 857-902 and 648-694: the table after \<open>db.commit()\<close>\<close>
  "link_channel user_id ch access refresh expires_in now new_id db =
     (case find (is_linked user_id (ch_id ch)) db of
        Some existing_account \<Rightarrow>
          update_first (is_linked user_id (ch_id ch)) (relinked ch access refresh expires_in now) db
      | None \<Rightarrow> db @ [new_youtube_account user_id ch access refresh expires_in now new_id])"

record token_json =
  tk_access_token :: "string option"
    \<comment> \<open>\<open>None\<close>: the key is missing, \<open>tokens["access_token"]\<close> raises\<close>
  tk_refresh_token :: "string option"
  tk_expires_in :: "int option"

record token_response =
  tr_status :: nat
  tr_json :: "exn + token_json"

record channel_response =
  cr_status :: nat
  cr_json :: "exn + (exn + channel) list option"
    \<comment> \<open>\<open>channel_response.json()\<close>, then \<open>["items"]\<close> (\<open>None\<close>: the key is missing); an item
        is \<open>Inl\<close> when reading its id, title or statistics raises\<close>

record cb_world =
  cw_token :: "exn + token_response"
    \<comment> \<open>\<open>requests.post("https://oauth2.googleapis.com/token", data=token_data)\<close>\<close>
  cw_channels :: "exn + channel_response"
    \<comment> \<open>\<open>requests.get("https://www.googleapis.com/youtube/v3/channels", ...)\<close>\<close>
  cw_now :: int
  cw_new_id :: string
  cw_commit :: "exn option"
    \<comment> \<open>what \<open>db.commit()\<close> raises, if anything\<close>
  cw_refresh_row :: "exn option"
    \<comment> \<open>what \<open>db.refresh(account)\<close> raises after the commit, if anything (only
        \<open>exchange_youtube_token\<close> calls it)\<close>

datatype redirect =
    ErrorRedirect string
      \<comment> \<open>\<open>RedirectResponse(url=f"http://localhost:8501/?oauth_status=error&error_msg={msg}")\<close>\<close>
  | SuccessRedirect string
      \<comment> \<open>\<open>RedirectResponse(url=f"...?oauth_status=success&platform=youtube&channel={title}")\<close>\<close>

datatype early_exit =
    TokenExchangeFailed
      \<comment> \<open>the token endpoint answered with a status other than 200\<close>
  | ChannelFetchFailed
      \<comment> \<open>the channel request answered with another status, or with no item\<close>

text \<open>
  The \<open>try\<close> block of both endpoints after the state is read, for the user \<open>user_id\<close>:
  the table as committed, the calls made, and the channel linked or the way the block ends
  otherwise (\<open>Inl\<close>: an exception, \<open>Inr (Inl x)\<close>: an early exit).
\<close>

definition exchange_and_link ::
  "cb_world \<Rightarrow> string \<Rightarrow> 'u \<Rightarrow> 'u SocialAccount list \<Rightarrow>
   'u SocialAccount list \<times> event list \<times> (exn + early_exit + channel)" where
  "exchange_and_link w code user_id db =
     (case cw_token w of
        Inl e \<Rightarrow> (db, [EvTokenExchange code], Inl e)
      | Inr response \<Rightarrow>
     if tr_status response \<noteq> 200
     then (db, [EvTokenExchange code], Inr (Inl TokenExchangeFailed))
     else
     (case tr_json response of
        Inl e \<Rightarrow> (db, [EvTokenExchange code], Inl e)
      | Inr tokens \<Rightarrow>
     (case tk_access_token tokens of
        None \<Rightarrow> (db, [EvTokenExchange code], Inl (PyExc KeyError ''access_token''))
      | Some access \<Rightarrow>
     (let evs = [EvTokenExchange code, EvChannelFetch access]
      in case cw_channels w of
        Inl e \<Rightarrow> (db, evs, Inl e)
      | Inr channel_response \<Rightarrow>
     if cr_status channel_response \<noteq> 200
     then (db, evs, Inr (Inl ChannelFetchFailed))
     else
     (case cr_json channel_response of
        Inl e \<Rightarrow> (db, evs, Inl e)
      | Inr None \<Rightarrow> (db, evs, Inl (PyExc KeyError ''items''))
      | Inr (Some []) \<Rightarrow> (db, evs, Inr (Inl ChannelFetchFailed))
      | Inr (Some (Inl e # items)) \<Rightarrow> (db, evs, Inl e)
      | Inr (Some (Inr ch # items)) \<Rightarrow>
          (case cw_commit w of
             Some e \<Rightarrow> (db, evs, Inl e)
           | None \<Rightarrow>
               (link_channel user_id ch access (tk_refresh_token tokens) (tk_expires_in tokens)
                  (cw_now w) (cw_new_id w) db,
                evs, Inr (Inr ch))))))))"

definition youtube_oauth_callback ::
  "'u uuid_module \<Rightarrow> cb_world \<Rightarrow> string option \<Rightarrow> string option \<Rightarrow> string option \<Rightarrow>
   'u SocialAccount list \<Rightarrow> 'u SocialAccount list \<times> event list \<times> redirect" where
  \<comment> \<open>\<open>error_param\<close> is the query parameter \<open>error\<close>\<close>
  "youtube_oauth_callback lib w code state error_param db =
     (if truthy error_param then (db, [], ErrorRedirect (the error_param))
      else if \<not> truthy code \<or> \<not> truthy state
      then (db, [], ErrorRedirect ''missing_code_or_state'')
      else
        (case parse_state lib (the state) of
           Inl e \<Rightarrow> (db, [], ErrorRedirect (exn_str e))
         | Inr (user_id, platform, request_id) \<Rightarrow>
             (case exchange_and_link w (the code) user_id db of
                (db', evs, Inl e) \<Rightarrow> (db', evs, ErrorRedirect (exn_str e))
              | (db', evs, Inr (Inl TokenExchangeFailed)) \<Rightarrow>
                  (db', evs, ErrorRedirect ''token_exchange_failed'')
              | (db', evs, Inr (Inl ChannelFetchFailed)) \<Rightarrow>
                  (db', evs, ErrorRedirect ''channel_fetch_failed'')
              | (db', evs, Inr (Inr ch)) \<Rightarrow> (db', evs, SuccessRedirect (ch_title ch)))))"

record exchange_reply =
  er_channel_name :: string
  er_channel_id :: string
  er_subscriber_count :: int

definition exchange_youtube_token ::
  "cb_world \<Rightarrow> string option \<Rightarrow> string option \<Rightarrow> 'u \<Rightarrow> 'u SocialAccount list \<Rightarrow>
   'u SocialAccount list \<times> event list \<times> (http_exception + exchange_reply)" where
  \<comment> \<open>an exit of the \<open>try\<close> block by \<open>raise HTTPException(400, detail)\<close> is caught by its
      own \<open>except Exception as e\<close> and raised again with status 500 and \<open>str(e)\<close>, which
      Starlette renders as \<open>"400: " + detail\<close>\<close>
  "exchange_youtube_token w code state current_user_id db =
     (if \<not> truthy code \<or> \<not> truthy state
      then (db, [], Inl (HTTPException 400 ''Missing code or state''))
      else
        (case exchange_and_link w (the code) current_user_id db of
           (db', evs, Inl e) \<Rightarrow>
             (db', evs, Inl (HTTPException 500 (''Token exchange failed: '' @ exn_str e)))
         | (db', evs, Inr (Inl TokenExchangeFailed)) \<Rightarrow>
             (db', evs, Inl (HTTPException 500
                (''Token exchange failed: 400: Failed to exchange code for tokens'')))
         | (db', evs, Inr (Inl ChannelFetchFailed)) \<Rightarrow>
             (db', evs, Inl (HTTPException 500
                (''Token exchange failed: 400: Failed to get YouTube channel information'')))
         | (db', evs, Inr (Inr ch)) \<Rightarrow>
             (case cw_refresh_row w of
                Some e \<Rightarrow>
                  (db', evs, Inl (HTTPException 500 (''Token exchange failed: '' @ exn_str e)))
              | None \<Rightarrow>
                  (db', evs, Inr \<lparr> er_channel_name = ch_title ch, er_channel_id = ch_id ch,
                                   er_subscriber_count = ch_subscriber_count ch \<rparr>))))"

subsection \<open>\<open>add_social_account_manual\<close>\<close>

definition PLATFORM_CONFIGS :: "string list" where
  \<comment> \<open>the keys of the dictionary\<close>
  "PLATFORM_CONFIGS = [''youtube'', ''instagram'', ''facebook'', ''linkedin'', ''tiktok'', ''twitter'']"

record SocialAccountCreate =
  ac_platform :: string
  ac_platform_username :: string
  ac_platform_email :: "string option"
  ac_display_name :: "string option"
  ac_access_token :: string
  ac_refresh_token :: "string option"
  ac_token_expires_at :: "int option"
  ac_primary_id :: "string option"
  ac_platform_metadata :: "metadata option"
  ac_is_verified :: bool

record SocialAccountResponse =
  rs_id :: string
  rs_platform :: string
  rs_platform_username :: "string option"
  rs_primary_id :: "string option"
  rs_is_active :: bool
  rs_is_verified :: bool
  rs_account_status :: string

record add_world =
  ad_now :: int
  ad_new_id :: string
  ad_commit :: "exn option"
    \<comment> \<open>what \<open>db.add(social_account)\<close> or \<open>db.commit()\<close> raises, if anything\<close>
  ad_response :: "exn option"
    \<comment> \<open>what \<open>db.refresh(social_account)\<close> or the validation of
        \<open>SocialAccountResponse(...)\<close> raises after the commit, if anything\<close>

definition same_account :: "'u \<Rightarrow> SocialAccountCreate \<Rightarrow> 'u SocialAccount \<Rightarrow> bool" where
  \<comment> \<open>the filter of the query for an existing account\<close>
  "same_account user_id account_data a =
     (sa_user_id a = user_id \<and> sa_platform a = ac_platform account_data
      \<and> sa_platform_username a = Some (ac_platform_username account_data))"

definition manual_account :: "add_world \<Rightarrow> 'u \<Rightarrow> SocialAccountCreate \<Rightarrow> 'u SocialAccount" where
  "manual_account w user_id account_data =
     \<lparr> access_token = ac_access_token account_data,
       refresh_token = ac_refresh_token account_data,
       token_expires_at = ac_token_expires_at account_data,
       sa_id = ad_new_id w,
       sa_user_id = user_id,
       sa_platform = ac_platform account_data,
       sa_platform_user_id = ac_primary_id account_data,
       sa_platform_username = Some (ac_platform_username account_data),
       sa_platform_email = ac_platform_email account_data,
       sa_display_name = ac_display_name account_data,
       sa_primary_id = ac_primary_id account_data,
       sa_platform_metadata = ac_platform_metadata account_data,
       sa_is_active = True,
       sa_is_verified = ac_is_verified account_data,
       sa_account_status = ''active'',
       sa_connected_at = Some (ad_now w),
       sa_last_used_at = Some (ad_now w),
       sa_last_token_refresh = Some (ad_now w) \<rparr>"

definition account_response :: "'u SocialAccount \<Rightarrow> SocialAccountResponse" where
  "account_response a =
     \<lparr> rs_id = sa_id a, rs_platform = sa_platform a,
       rs_platform_username = sa_platform_username a, rs_primary_id = sa_primary_id a,
       rs_is_active = sa_is_active a, rs_is_verified = sa_is_verified a,
       rs_account_status = sa_account_status a \<rparr>"

definition add_social_account_manual ::
  "add_world \<Rightarrow> SocialAccountCreate \<Rightarrow> 'u \<Rightarrow> 'u SocialAccount list \<Rightarrow>
   'u SocialAccount list \<times> (http_exception + SocialAccountResponse)" where
  "add_social_account_manual w account_data current_user_id db =
     (if ac_platform account_data \<notin> set PLATFORM_CONFIGS
      then (db, Inl (HTTPException 400 (''Unsupported platform: '' @ ac_platform account_data)))
      else
        (case find (same_account current_user_id account_data) db of
           Some existing_account \<Rightarrow>
             (db, Inl (HTTPException 400
                         (''Account already exists for '' @ ac_platform account_data)))
         | None \<Rightarrow>
             (let social_account = manual_account w current_user_id account_data
              in case ad_commit w of
                   Some e \<Rightarrow>
                     \<comment> \<open>\<open>db.rollback()\<close>\<close>
                     (db, Inl (HTTPException 400 (''Failed to add account: '' @ exn_str e)))
                 | None \<Rightarrow>
                     (case ad_response w of
                        Some e \<Rightarrow>
                          (db @ [social_account],
                           Inl (HTTPException 400 (''Failed to add account: '' @ exn_str e)))
                      | None \<Rightarrow> (db @ [social_account], Inr (account_response social_account))))))"

section \<open>social/router.py: \<open>create_posts\<close>\<close>

record Video =
  v_id :: string
  v_file_path :: "string option"
  v_original_text :: "string option"

record PostRequest =
  rq_video_id :: string
  rq_platforms :: "string list"
  rq_title :: string
  rq_description :: "string option"
  rq_tags :: "string list"
  rq_platform_settings :: "(string \<times> yt_settings) list option"

record PostResponse =
  pr_id :: string
  pr_platform :: string
  pr_platform_post_id :: "string option"
  pr_post_url :: "string option"
  pr_status :: string
  pr_title :: "string option"
  pr_description :: "string option"
  pr_error_message :: "string option"

text \<open>
  What the collaborators of one pass through the \<open>youtube\<close> branch answer: the two queries,
  the commits, \<open>authenticate_with_token\<close>, the file system and the upload.
\<close>

record 'u yt_world =
  yw_video :: "exn + Video option"
    \<comment> \<open>\<open>db.query(Video).filter(...).first()\<close>\<close>
  yw_account :: "exn + 'u SocialAccount option"
    \<comment> \<open>\<open>db.query(SocialAccount).filter(...).first()\<close>\<close>
  yw_commit_post :: "exn option"
    \<comment> \<open>what \<open>db.add(post)\<close>, \<open>db.commit()\<close> or \<open>db.refresh(post)\<close> raises, if anything\<close>
  yw_post_id :: string
  yw_auth_success :: bool
  yw_commit_auth_failed :: "exn option"
  yw_video_dir :: string
    \<comment> \<open>the absolute path of \<open>generated_videos\<close>\<close>
  yw_uploader :: uploader_world
  yw_commit_final :: "exn option"
    \<comment> \<open>what the last \<open>db.commit()\<close> raises, if anything\<close>
  yw_uuid4 :: string
  yw_now :: int

definition or_else :: "string \<Rightarrow> string \<Rightarrow> string" where
  \<comment> \<open>\<open>a or b\<close> on strings\<close>
  "or_else a b = (if a \<noteq> [] then a else b)"

definition youtube_settings_of :: "PostRequest \<Rightarrow> yt_settings" where
  \<comment> \<open>\<open>request.platform_settings.get("youtube", {}) if request.platform_settings else {}\<close>\<close>
  "youtube_settings_of request =
     (case rq_platform_settings request of
        None \<Rightarrow> empty_settings
      | Some d \<Rightarrow> if d = [] then empty_settings else get_or (map_of d ''youtube'') empty_settings)"

definition full_video_path_of :: "string \<Rightarrow> string \<Rightarrow> string" where
  \<comment> \<open>\<open>os.path.join(base_video_dir, os.path.basename(video.file_path))\<close>, made absolute\<close>
  "full_video_path_of base_video_dir file_path =
     base_video_dir @ ''/'' @ last (py_split (CHR ''/'') file_path)"

definition uploader_call ::
  "PostRequest \<Rightarrow> 'u yt_world \<Rightarrow> Video \<Rightarrow> string \<Rightarrow> event list \<times> (exn + upload_result) option" where
  \<comment> \<open>lines 383-391: \<open>youtube_uploader.upload_video(video_path=full_video_path, ...)\<close>, after
      \<open>authenticate_with_token\<close> has set the uploader's service\<close>
  "uploader_call request w video full_video_path =
     (let youtube_settings = youtube_settings_of request
      in uploader_upload_video (yw_uploader w) True full_video_path
           (or_else (rq_title request) ''AI Generated Video'')
           (or_else (get_or (rq_description request) [])
              (''AI-generated video: '' @ get_or (v_original_text video) []))
           (Some (if rq_tags request \<noteq> [] then rq_tags request
                  else [''AI'', ''Video'', ''Generated'']))
           (get_or (ys_category_id youtube_settings) ''28'')
           (get_or (ys_privacy_status youtube_settings) ''private'')
           (get_or (ys_made_for_kids youtube_settings) False))"

definition router_upload ::
  "PostRequest \<Rightarrow> 'u yt_world \<Rightarrow> Video \<Rightarrow> (event list \<times> upload_result) option" where
  \<comment> \<open>the inner \<open>try\<close> of the branch with its \<open>except Exception as upload_exc\<close>; the result is
      \<open>None\<close> when the uploader's loop does not end\<close>
  "router_upload request w video =
     (case v_file_path video of
        None \<Rightarrow>
          Some ([], upload_failed ''expected str, bytes or os.PathLike object, not NoneType'')
      | Some file_path \<Rightarrow>
          (let full_video_path = full_video_path_of (yw_video_dir w) file_path
           in if uw_file_size (yw_uploader w) = None
              then Some ([], upload_failed (''Video file not found: '' @ full_video_path))
              else
                (case uploader_call request w video full_video_path of
                   (evs, None) \<Rightarrow> None
                 | (evs, Some (Inl upload_exc)) \<Rightarrow> Some (evs, upload_failed (exn_str upload_exc))
                 | (evs, Some (Inr upload_result)) \<Rightarrow> Some (evs, upload_result))))"

definition posted_response :: "PostRequest \<Rightarrow> string \<Rightarrow> string \<Rightarrow> string \<Rightarrow> PostResponse" where
  "posted_response request post_id vid url =
     \<lparr> pr_id = post_id, pr_platform = ''youtube'', pr_platform_post_id = Some vid,
       pr_post_url = Some url, pr_status = ''posted'', pr_title = Some (rq_title request),
       pr_description = rq_description request, pr_error_message = None \<rparr>"

definition failed_response :: "PostRequest \<Rightarrow> string \<Rightarrow> string \<Rightarrow> PostResponse" where
  "failed_response request post_id msg =
     \<lparr> pr_id = post_id, pr_platform = ''youtube'', pr_platform_post_id = None,
       pr_post_url = None, pr_status = ''failed'', pr_title = Some (rq_title request),
       pr_description = None, pr_error_message = Some msg \<rparr>"

text \<open>
  The outer \<open>try\<close> block of the branch: the list \<open>response_posts\<close> and the calls made when
  the block is left, and the exception that leaves it, if one does.
\<close>

definition youtube_try ::
  "PostRequest \<Rightarrow> 'u yt_world \<Rightarrow> PostResponse list \<Rightarrow>
   (PostResponse list \<times> event list \<times> exn option) option" where
  "youtube_try request w response_posts =
     (case yw_video w of
        Inl e \<Rightarrow> Some (response_posts, [], Some e)
      | Inr None \<Rightarrow> Some (response_posts, [], Some (Exception ''Video not found''))
      | Inr (Some video) \<Rightarrow>
     (case yw_account w of
        Inl e \<Rightarrow> Some (response_posts, [], Some e)
      | Inr None \<Rightarrow> Some (response_posts, [], Some (Exception ''No YouTube account connected''))
      | Inr (Some youtube_account) \<Rightarrow>
     (case yw_commit_post w of
        Some e \<Rightarrow> Some (response_posts, [], Some e)
      | None \<Rightarrow>
     (let auth = [EvAuthenticate (access_token youtube_account) (refresh_token youtube_account)]
      in if \<not> yw_auth_success w then
           (case yw_commit_auth_failed w of
              Some e \<Rightarrow> Some (response_posts, auth, Some e)
            | None \<Rightarrow>
                Some (response_posts, auth, Some (Exception ''YouTube authentication failed'')))
         else
           (case router_upload request w video of
              None \<Rightarrow> None
            | Some (evs, upload_result) \<Rightarrow>
                if success upload_result then
                  (case (video_id upload_result, video_url upload_result) of
                     (Some vid, Some url) \<Rightarrow>
                       Some (response_posts @ [posted_response request (yw_post_id w) vid url],
                             auth @ evs, yw_commit_final w)
                   | (None, _) \<Rightarrow> Some (response_posts, auth @ evs, Some (PyExc KeyError ''video_id''))
                   | (Some vid, None) \<Rightarrow>
                       Some (response_posts, auth @ evs, Some (PyExc KeyError ''video_url'')))
                else
                  Some (response_posts
                          @ [failed_response request (yw_post_id w)
                               (get_or (error upload_result) ''YouTube upload failed'')],
                        auth @ evs, yw_commit_final w))))))"

definition youtube_branch ::
  "PostRequest \<Rightarrow> 'u yt_world \<Rightarrow> PostResponse list \<Rightarrow> (PostResponse list \<times> event list) option" where
  \<comment> \<open>\<open>try: ... except Exception as youtube_error: response_posts.append(...)\<close>\<close>
  "youtube_branch request w response_posts =
     (case youtube_try request w response_posts of
        None \<Rightarrow> None
      | Some (response_posts', evs, None) \<Rightarrow> Some (response_posts', evs)
      | Some (response_posts', evs, Some youtube_error) \<Rightarrow>
          Some (response_posts'
                  @ [failed_response request (yw_uuid4 w)
                       (''YouTube error: '' @ exn_str youtube_error)],
                evs))"

text \<open>
  The loop \<open>for platform in request.platforms\<close>; \<open>w i\<close> is the world of the pass for the
  platform at index \<open>i\<close>. A platform other than \<open>youtube\<close> takes the branch \<open>else: pass\<close>.
\<close>

fun create_posts_loop ::
  "PostRequest \<Rightarrow> (nat \<Rightarrow> 'u yt_world) \<Rightarrow> nat \<Rightarrow> string list \<Rightarrow> PostResponse list \<times> event list \<Rightarrow>
   (PostResponse list \<times> event list) option" where
  "create_posts_loop request w i [] st = Some st"
| "create_posts_loop request w i (platform # rest) (response_posts, calls) =
     (if platform = ''youtube'' then
        (case youtube_branch request (w i) response_posts of
           None \<Rightarrow> None
         | Some (response_posts', evs) \<Rightarrow>
             create_posts_loop request w (Suc i) rest (response_posts', calls @ evs))
      else create_posts_loop request w (Suc i) rest (response_posts, calls))"

definition create_posts ::
  "PostRequest \<Rightarrow> (nat \<Rightarrow> 'u yt_world) \<Rightarrow> (PostResponse list \<times> event list) option" where
  "create_posts request w = create_posts_loop request w 0 (rq_platforms request) ([], [])"

fun is_response :: "chunk_outcome \<Rightarrow> bool" where
  "is_response (Response resp) = True"
| "is_response _ = False"

section \<open>Example values\<close>

definition text_uuid_module :: "string uuid_module" where
  \<comment> \<open>UUID values kept as their canonical text of 36 characters\<close>
  "text_uuid_module =
     \<lparr> uuid_str = (\<lambda>u. u),
       uuid_UUID = (\<lambda>s. if length s = 36 then Inr s
                         else Inl (PyExc ValueError ''badly formed hexadecimal UUID string'')) \<rparr>"

definition example_user :: string where
  "example_user = ''123e4567-e89b-12d3-a456-426614174000''"

definition example_state :: string where
  "example_state = ''123e4567-e89b-12d3-a456-426614174000:youtube:9f1c2d3e-0000-4000-8000-aabbccddeeff''"

definition example_channel :: channel where
  "example_channel =
     \<lparr> ch_id = ''UC123'', ch_title = ''Channel'', ch_subscriber_count = 10,
       ch_video_count = 2, ch_view_count = 300 \<rparr>"

definition linking_world :: "string \<Rightarrow> int \<Rightarrow> string \<Rightarrow> cb_world" where
  \<comment> \<open>Google accepts the code and returns the token \<open>tok\<close> and one channel; the commit succeeds\<close>
  "linking_world tok now new_id =
     \<lparr> cw_token = Inr \<lparr> tr_status = 200,
                          tr_json = Inr \<lparr> tk_access_token = Some tok,
                                          tk_refresh_token = Some ''refresh'',
                                          tk_expires_in = None \<rparr> \<rparr>,
       cw_channels = Inr \<lparr> cr_status = 200, cr_json = Inr (Some [Inr example_channel]) \<rparr>,
       cw_now = now,
       cw_new_id = new_id,
       cw_commit = None,
       cw_refresh_row = None \<rparr>"


definition example_account_data :: SocialAccountCreate where
  "example_account_data =
     \<lparr> ac_platform = ''youtube'', ac_platform_username = ''my_channel'',
       ac_platform_email = None, ac_display_name = None,
       ac_access_token = ''0123456789abcdef'', ac_refresh_token = None,
       ac_token_expires_at = None, ac_primary_id = None, ac_platform_metadata = Some [],
       ac_is_verified = False \<rparr>"

definition example_add_world :: "exn option \<Rightarrow> add_world" where
  "example_add_world commit =
     \<lparr> ad_now = 100, ad_new_id = ''row-1'', ad_commit = commit, ad_response = None \<rparr>"

definition null_metadata_world :: add_world where
  \<comment> \<open>the commit succeeds, then the response model refuses \<open>platform_metadata = None\<close>\<close>
  "null_metadata_world =
     \<lparr> ad_now = 100, ad_new_id = ''row-1'', ad_commit = None,
       ad_response = Some (PyExc ValueError ''1 validation error for SocialAccountResponse'') \<rparr>"

definition example_request :: PostRequest where
  "example_request =
     \<lparr> rq_video_id = ''v1'', rq_platforms = [''youtube'', ''linkedin''], rq_title = ''Title'',
       rq_description = None, rq_tags = [], rq_platform_settings = None \<rparr>"

definition example_account :: "string SocialAccount" where
  "example_account =
     (new_youtube_account example_user example_channel ''stale'' (Some ''refresh'') None 0 ''row-1'')
       \<lparr> token_expires_at := Some 50 \<rparr>"

definition example_yt_world :: "string yt_world" where
  \<comment> \<open>the video and an account exist, the account's token expired at 50 and it is now 100,
      every commit succeeds and YouTube accepts the upload\<close>
  "example_yt_world =
     \<lparr> yw_video = Inr (Some \<lparr> v_id = ''video-1'', v_file_path = Some ''out/v1.mp4'',
                               v_original_text = None \<rparr>),
       yw_account = Inr (Some example_account),
       yw_commit_post = None,
       yw_post_id = ''post-1'',
       yw_auth_success = True,
       yw_commit_auth_failed = None,
       yw_video_dir = ''/app/generated_videos'',
       yw_uploader = \<lparr> uw_file_size = Some 1000, uw_media = None,
                        uw_chunks = [Response [(''id'', ''abc'')]],
                        uw_error_message = Inr None \<rparr>,
       yw_commit_final = None,
       yw_uuid4 = ''uuid-1'',
       yw_now = 100 \<rparr>"

definition example_worlds :: "nat \<Rightarrow> string yt_world" where
  \<comment> \<open>every pass of the loop meets the same world\<close>
  "example_worlds i = example_yt_world"

section \<open>Supporting lemmas\<close>

subsection \<open>The upload loops\<close>

lemma api_loop_ends: "list_ex final_outcome cs \<Longrightarrow> snd (api_loop r cs) \<noteq> None"
proof (induction r cs rule: api_loop.induct)
  case (4 r st content msg rest)
  then show ?case by (auto simp: Let_def split: prod.splits)
qed (auto split: prod.splits)

lemma api_loop_gives_up:
  "r \<le> MAX_RETRIES \<Longrightarrow> MAX_RETRIES < r + length (filter retried cs)
   \<Longrightarrow> snd (api_loop r cs) \<noteq> None"
proof (induction r cs rule: api_loop.induct)
  case (4 r st content msg rest)
  then show ?case by (auto simp: Let_def split: prod.splits)
qed (auto split: prod.splits)

lemma api_loop_returns:
  assumes "list_ex final_outcome cs \<or> MAX_RETRIES < length (filter retried cs)"
  shows "snd (api_loop 0 cs) \<noteq> None"
  using assms api_loop_ends[of cs 0] api_loop_gives_up[of 0 cs]
  by auto

subsection \<open>Results of the adapters\<close>

lemma post_video_try_shape:
  assumes "post_video_try w token pd = (evs, Inr r)"
  shows "if pub_success r
         then (\<exists>vid. pub_post_id r = Some vid \<and> pub_post_url r = Some (watch_url vid))
         else pub_error r \<noteq> None"
  using assms
  by (auto simp: post_video_try_def publish_succeeded_def publish_failed_def
           split: sum.splits option.splits if_splits prod.splits)

lemma post_video_returns:
  "\<exists>evs r. post_video w token pd = (evs, Inr r) \<and>
     (if pub_success r
      then (\<exists>vid. pub_post_id r = Some vid \<and> pub_post_url r = Some (watch_url vid))
      else pub_error r \<noteq> None)"
proof (cases "post_video_try w token pd")
  case (Pair evs res)
  show ?thesis
  proof (cases res)
    case (Inl e)
    with Pair show ?thesis by (simp add: post_video_def publish_failed_def)
  next
    case (Inr r)
    with Pair post_video_try_shape[of w token pd evs r] show ?thesis
      by (simp add: post_video_def)
  qed
qed

lemma api_upload_try_shape:
  assumes "api_upload_try w a p t d tg c pr k = (a', evs, Some (Inr r))"
  shows "success r \<and> (\<exists>vid. video_id r = Some vid \<and> video_url r = Some (watch_url vid))"
  using assms
  by (auto simp: api_upload_try_def upload_succeeded_def
           split: sum.splits option.splits if_splits prod.splits)

lemma api_upload_try_ends:
  assumes "list_ex final_outcome (aw_chunks w)
           \<or> MAX_RETRIES < length (filter retried (aw_chunks w))"
  shows "snd (snd (api_upload_try w a p t d tg c pr k)) \<noteq> None"
  using api_loop_returns[OF assms]
  by (auto simp: api_upload_try_def split: sum.splits option.splits if_splits prod.splits)

lemma api_upload_video_returns:
  assumes "list_ex final_outcome (aw_chunks w)
           \<or> MAX_RETRIES < length (filter retried (aw_chunks w))"
  shows "\<exists>a' evs r. api_upload_video w a p t d tg c pr k = (a', evs, Some (Inr r)) \<and>
     (if success r
      then (\<exists>vid. video_id r = Some vid \<and> video_url r = Some (watch_url vid))
      else error r \<noteq> None)"
proof -
  obtain a' evs res where body: "api_upload_try w a p t d tg c pr k = (a', evs, res)"
    by (cases "api_upload_try w a p t d tg c pr k") auto
  with api_upload_try_ends[OF assms, of a p t d tg c pr k] obtain x where res: "res = Some x"
    by auto
  show ?thesis
  proof (cases x)
    case (Inl e)
    with body res show ?thesis by (simp add: api_upload_video_def upload_failed_def)
  next
    case (Inr r)
    with body res api_upload_try_shape[of w a p t d tg c pr k a' evs r] show ?thesis
      by (simp add: api_upload_video_def)
  qed
qed

lemma api_upload_video_no_exn:
  "api_upload_video w a p t d tg c pr k \<noteq> (a', evs, Some (Inl e))"
  by (simp add: api_upload_video_def split: prod.splits option.splits sum.splits)

subsection \<open>The metadata body\<close>

lemma clean_tags_length: "length (clean_tags tags) \<le> 50"
  by (simp add: clean_tags_def)

lemma py_strip_subset: "set (py_strip s) \<subseteq> set s"
  unfolding py_strip_def
  by (metis set_dropWhileD set_rev subsetI)

lemma clean_tags_no_hash:
  assumes "t \<in> set (clean_tags tags)"
  shows "CHR ''#'' \<notin> set t"
proof -
  from assms have "t \<in> set (map (\<lambda>tag. py_strip (py_remove (CHR ''#'') tag))
                               (filter (\<lambda>tag. py_strip tag \<noteq> []) tags))"
    unfolding clean_tags_def by (meson in_set_takeD)
  then obtain tag where "t = py_strip (py_remove (CHR ''#'') tag)" by auto
  moreover have "CHR ''#'' \<notin> set (py_remove (CHR ''#'') tag)" by (simp add: py_remove_def)
  ultimately show ?thesis using py_strip_subset by blast
qed

lemma uploader_body_limits:
  "length (sn_title (body_snippet (uploader_request_body title description tags c p k))) \<le> 100 \<and>
   length (sn_description (body_snippet (uploader_request_body title description tags c p k))) \<le> 5000 \<and>
   length (sn_tags (body_snippet (uploader_request_body title description tags c p k))) \<le> 50 \<and>
   list_all (\<lambda>t. CHR ''#'' \<notin> set t)
     (sn_tags (body_snippet (uploader_request_body title description tags c p k)))"
  by (auto simp: uploader_request_body_def clean_tags_length list_all_iff dest: clean_tags_no_hash)

lemma uploader_loop_events: "set (fst (uploader_loop cs)) \<subseteq> {EvNextChunk}"
  by (induction cs rule: uploader_loop.induct) (auto split: prod.splits)

lemma uploader_sends_its_body:
  assumes "EvInsert b \<in> set (fst (uploader_upload_video w s path title description tags c p k))"
  shows "b = uploader_request_body title description tags c p k"
proof -
  obtain evs r where l: "uploader_loop (uw_chunks w) = (evs, r)"
    by (cases "uploader_loop (uw_chunks w)") auto
  with uploader_loop_events[of "uw_chunks w"] have "EvInsert b \<notin> set evs" by auto
  with assms l show ?thesis
    by (simp add: uploader_upload_video_def Let_def
           split: if_splits option.splits exn.splits sum.splits)
qed

subsection \<open>Retries and file checks\<close>

lemma uploader_loop_raises:
  "uploader_loop (replicate n (Raises e)) = (replicate n EvNextChunk, None)"
  by (induction n) auto

lemma api_loop_bounded:
  "r \<le> MAX_RETRIES \<Longrightarrow>
   length (filter retried (take (length (fst (api_loop r cs))) cs)) + r \<le> MAX_RETRIES + 1"
proof (induction r cs rule: api_loop.induct)
  case (4 r st content msg rest)
  then show ?case by (auto simp: Let_def split: prod.splits)
qed (auto split: prod.splits)

lemma api_loop_max_retries:
  "api_loop 0 (Raises (HttpError 503 ''busy'' ''HttpError 503'') #
               Raises (HttpError 500 ''down'' ''HttpError 500'') #
               Raises (HttpError 502 ''gate'' ''HttpError 502'') #
               Raises (HttpError 504 ''slow'' ''HttpError 504'') # rest)
   = ([EvNextChunk, EvNextChunk, EvNextChunk, EvNextChunk],
      Some (Inl (Exception ''Max retries exceeded: HTTP error 504: slow'')))"
  by (simp add: RETRIABLE_STATUS_CODES_def MAX_RETRIES_def)

lemma api_upload_video_validates_first:
  assumes "aw_file_size w = None \<or> (\<exists>n. aw_file_size w = Some n \<and> n > MAX_FILE_SIZE)"
  shows "\<exists>msg. api_upload_video w a p t d tg c pr k = (a, [], Some (Inr (upload_failed msg)))"
  using assms
  by (auto simp: api_upload_video_def api_upload_try_def)

lemma uploader_missing_file:
  "uw_file_size w = None \<Longrightarrow>
   \<exists>msg. uploader_upload_video w s p t d tg c pr k = ([], Some (Inr (upload_failed msg)))"
  by (auto simp: uploader_upload_video_def)

subsection \<open>The state string\<close>

lemma py_split_nonempty: "py_split sep s \<noteq> []"
  by (induction s) (auto split: list.splits)

lemma py_split_no_sep: "sep \<notin> set s \<Longrightarrow> py_split sep s = [s]"
  by (induction s) auto

lemma py_split_append:
  "sep \<notin> set a \<Longrightarrow> py_split sep (a @ sep # b) = a # py_split sep b"
  by (induction a) (auto split: list.splits)

lemma parse_state_oauth_state:
  assumes "uuid_UUID lib (uuid_str lib user_id) = Inr user_id"
    and "CHR '':'' \<notin> set (uuid_str lib user_id)"
    and "CHR '':'' \<notin> set (uuid_str lib nonce)"
  shows "parse_state lib (oauth_state lib user_id nonce) = Inr (user_id, ''youtube'', uuid_str lib nonce)"
proof -
  have "py_split (CHR '':'') (oauth_state lib user_id nonce)
        = [uuid_str lib user_id, ''youtube'', uuid_str lib nonce]"
  proof -
    have "oauth_state lib user_id nonce
          = uuid_str lib user_id @ CHR '':'' # (''youtube'' @ CHR '':'' # uuid_str lib nonce)"
      by (simp add: oauth_state_def)
    moreover have "py_split (CHR '':'') (uuid_str lib nonce) = [uuid_str lib nonce]"
      using assms(3) by (rule py_split_no_sep)
    moreover have "py_split (CHR '':'') (''youtube'' @ CHR '':'' # uuid_str lib nonce)
                   = ''youtube'' # py_split (CHR '':'') (uuid_str lib nonce)"
      by (rule py_split_append) simp
    moreover have "py_split (CHR '':'')
                     (uuid_str lib user_id @ CHR '':'' # (''youtube'' @ CHR '':'' # uuid_str lib nonce))
                   = uuid_str lib user_id
                     # py_split (CHR '':'') (''youtube'' @ CHR '':'' # uuid_str lib nonce)"
      using assms(2) by (rule py_split_append)
    ultimately show ?thesis by (simp only:)
  qed
  with assms(1) show ?thesis by (simp add: parse_state_def)
qed

lemma parse_state_wrong_parts:
  assumes "length (py_split (CHR '':'') state) \<noteq> 3"
  shows "\<exists>msg. parse_state lib state = Inl (PyExc ValueError msg)"
  using assms
  by (auto simp: parse_state_def split: list.splits)

lemma callback_wrong_parts:
  assumes "length (py_split (CHR '':'') state) \<noteq> 3"
  shows "\<exists>msg. youtube_oauth_callback lib w code (Some state) err db = (db, [], ErrorRedirect msg)"
proof -
  from parse_state_wrong_parts[OF assms, of lib] obtain m
    where "parse_state lib state = Inl (PyExc ValueError m)" by blast
  then show ?thesis by (simp add: youtube_oauth_callback_def)
qed

subsection \<open>Linking a channel\<close>

lemma update_first_length: "length (update_first P f xs) = length xs"
  by (induction xs) auto

lemma update_first_filter_same:
  assumes "\<And>x. Q (f x) = Q x"
  shows "length (filter Q (update_first P f xs)) = length (filter Q xs)"
  by (induction xs) (auto simp: assms)

lemma update_first_map_same:
  assumes "\<And>x. g (f x) = g x"
  shows "map g (update_first P f xs) = map g xs"
  by (induction xs) (auto simp: assms)

lemma update_first_others:
  "filter (\<lambda>x. \<not> P x) (update_first P f xs) = filter (\<lambda>x. \<not> P x) xs" if "\<And>x. P (f x) = P x"
  by (induction xs) (auto simp: that)

lemma update_first_find:
  assumes "find P xs = Some x" and "\<And>x. P (f x) = P x"
  shows "find P (update_first P f xs) = Some (f x)"
  using assms by (induction xs) (auto split: if_splits)

lemma find_None_filter: "find P xs = None \<Longrightarrow> filter P xs = []"
  by (induction xs) (auto split: if_splits)

lemma find_Some_filter: "find P xs = Some x \<Longrightarrow> filter P xs \<noteq> []"
  by (induction xs) (auto split: if_splits)

lemma is_linked_relinked [simp]:
  "is_linked u c (relinked ch access refresh expires_in now a) = is_linked u c a"
  by (simp add: is_linked_def relinked_def)

lemma is_linked_new [simp]:
  "is_linked u (ch_id ch) (new_youtube_account u ch access refresh expires_in now new_id)"
  by (simp add: is_linked_def new_youtube_account_def)

lemma link_channel_count:
  "length (filter (is_linked u (ch_id ch)) (link_channel u ch access refresh expires_in now new_id db))
   = max 1 (length (filter (is_linked u (ch_id ch)) db))"
proof (cases "find (is_linked u (ch_id ch)) db")
  case None
  then show ?thesis
    by (simp add: link_channel_def find_None_filter)
next
  case (Some a)
  then have "filter (is_linked u (ch_id ch)) db \<noteq> []" by (rule find_Some_filter)
  then have "1 \<le> length (filter (is_linked u (ch_id ch)) db)"
    by (cases "filter (is_linked u (ch_id ch)) db") auto
  with Some show ?thesis
    by (simp add: link_channel_def update_first_filter_same)
qed

lemma link_channel_found:
  "find (is_linked u (ch_id ch)) (link_channel u ch access refresh expires_in now new_id db) \<noteq> None"
proof -
  have "length (filter (is_linked u (ch_id ch))
          (link_channel u ch access refresh expires_in now new_id db)) \<ge> 1"
    by (simp add: link_channel_count)
  then show ?thesis
    by (cases "find (is_linked u (ch_id ch)) (link_channel u ch access refresh expires_in now new_id db)")
       (auto dest: find_None_filter)
qed

lemma link_channel_again:
  assumes "find (is_linked u (ch_id ch)) db = Some a"
  shows "link_channel u ch access refresh expires_in now new_id db
         = update_first (is_linked u (ch_id ch)) (relinked ch access refresh expires_in now) db"
  using assms by (simp add: link_channel_def)

lemma exchange_and_link_success:
  assumes "exchange_and_link w code u db = (db', evs, Inr (Inr ch))"
  shows "\<exists>response tokens access channel_response items.
           cw_token w = Inr response \<and> tr_json response = Inr tokens
           \<and> tk_access_token tokens = Some access
           \<and> cw_channels w = Inr channel_response
           \<and> cr_json channel_response = Inr (Some (Inr ch # items))
           \<and> db' = link_channel u ch access (tk_refresh_token tokens) (tk_expires_in tokens)
                      (cw_now w) (cw_new_id w) db"
  using assms
  by (auto simp: exchange_and_link_def Let_def
           split: sum.splits if_splits option.splits list.splits)

lemma exchange_and_link_events:
  "(EvTokenExchange c \<in> set (fst (snd (exchange_and_link w code u db)))) = (c = code)"
  by (auto simp: exchange_and_link_def Let_def
           split: sum.splits if_splits option.splits list.splits)

lemma relink_core:
  assumes first: "exchange_and_link w1 code1 u db0 = (db1, evs1, Inr (Inr ch1))"
    and second: "exchange_and_link w2 code2 u db1 = (db2, evs2, Inr (Inr ch2))"
    and same: "ch_id ch2 = ch_id ch1"
  shows "length db2 = length db1
     \<and> map sa_id db2 = map sa_id db1
     \<and> length (filter (is_linked u (ch_id ch1)) db2) = length (filter (is_linked u (ch_id ch1)) db1)
     \<and> (length (filter (is_linked u (ch_id ch1)) db0) \<le> 1
          \<longrightarrow> length (filter (is_linked u (ch_id ch1)) db2) = 1)
     \<and> filter (\<lambda>a. \<not> is_linked u (ch_id ch1) a) db2 = filter (\<lambda>a. \<not> is_linked u (ch_id ch1) a) db1
     \<and> (\<forall>u' p. length (filter (\<lambda>a. sa_user_id a = u' \<and> sa_platform a = p \<and> sa_is_active a) db2)
              = length (filter (\<lambda>a. sa_user_id a = u' \<and> sa_platform a = p \<and> sa_is_active a) db1))
     \<and> (\<exists>a response tokens access.
           find (is_linked u (ch_id ch1)) db1 = Some a
           \<and> cw_token w2 = Inr response \<and> tr_json response = Inr tokens
           \<and> tk_access_token tokens = Some access
           \<and> find (is_linked u (ch_id ch1)) db2
               = Some (relinked ch2 access (tk_refresh_token tokens) (tk_expires_in tokens)
                         (cw_now w2) a))"
proof -
  from exchange_and_link_success[OF first] obtain access1 refresh1 exp1 where
    db1: "db1 = link_channel u ch1 access1 refresh1 exp1 (cw_now w1) (cw_new_id w1) db0"
    by blast
  from exchange_and_link_success[OF second] obtain response tokens access where
    w2: "cw_token w2 = Inr response" "tr_json response = Inr tokens"
        "tk_access_token tokens = Some access"
    and db2: "db2 = link_channel u ch2 access (tk_refresh_token tokens) (tk_expires_in tokens)
                      (cw_now w2) (cw_new_id w2) db1"
    by blast
  from link_channel_found[of u ch1 access1 refresh1 exp1 "cw_now w1" "cw_new_id w1" db0]
  obtain a where a: "find (is_linked u (ch_id ch1)) db1 = Some a"
    unfolding db1 by blast
  let ?f = "relinked ch2 access (tk_refresh_token tokens) (tk_expires_in tokens) (cw_now w2)"
  from a same db2 have upd: "db2 = update_first (is_linked u (ch_id ch1)) ?f db1"
    by (simp add: link_channel_again)
  have len: "length db2 = length db1"
    by (simp add: upd update_first_length)
  have ids: "map sa_id db2 = map sa_id db1"
    by (simp add: upd update_first_map_same relinked_def)
  have cnt: "length (filter (is_linked u (ch_id ch1)) db2)
             = length (filter (is_linked u (ch_id ch1)) db1)"
    by (simp add: upd update_first_filter_same)
  have one: "length (filter (is_linked u (ch_id ch1)) db0) \<le> 1
             \<longrightarrow> length (filter (is_linked u (ch_id ch1)) db2) = 1"
    using cnt by (auto simp: db1 link_channel_count)
  have others: "filter (\<lambda>a. \<not> is_linked u (ch_id ch1) a) db2
                = filter (\<lambda>a. \<not> is_linked u (ch_id ch1) a) db1"
    by (simp add: upd update_first_others)
  have active: "\<forall>u' p. length (filter (\<lambda>a. sa_user_id a = u' \<and> sa_platform a = p \<and> sa_is_active a) db2)
              = length (filter (\<lambda>a. sa_user_id a = u' \<and> sa_platform a = p \<and> sa_is_active a) db1)"
    by (simp add: upd update_first_filter_same relinked_def)
  have row: "find (is_linked u (ch_id ch1)) db2 = Some (?f a)"
    using a by (simp add: upd update_first_find)
  from len ids cnt one others active a w2 row show ?thesis by blast
qed



lemma exchange_and_link_rest:
  "snd (exchange_and_link w code u db) = snd (exchange_and_link w code u db')"
  by (simp add: exchange_and_link_def Let_def
           split: sum.splits if_splits option.splits list.splits)


lemma exchange_success:
  assumes "exchange_youtube_token w code state u db = (db', evs, Inr reply)"
  shows "\<exists>ch. exchange_and_link w (the code) u db = (db', evs, Inr (Inr ch))
           \<and> er_channel_id reply = ch_id ch"
  using assms
  by (auto simp: exchange_youtube_token_def
           split: if_splits sum.splits prod.splits early_exit.splits option.splits)

lemma exchange_relink_in_place:
  assumes "exchange_youtube_token w1 code1 state1 u db0 = (db1, evs1, Inr reply1)"
    and "exchange_youtube_token w2 code2 state2 u db1 = (db2, evs2, Inr reply2)"
    and "er_channel_id reply2 = er_channel_id reply1"
  shows "length db2 = length db1
     \<and> length (filter (is_linked u (er_channel_id reply1)) db2)
       = length (filter (is_linked u (er_channel_id reply1)) db1)
     \<and> (length (filter (is_linked u (er_channel_id reply1)) db0) \<le> 1
          \<longrightarrow> length (filter (is_linked u (er_channel_id reply1)) db2) = 1)"
proof -
  from exchange_success[OF assms(1)] obtain ch1 where
    first: "exchange_and_link w1 (the code1) u db0 = (db1, evs1, Inr (Inr ch1))"
    and id1: "er_channel_id reply1 = ch_id ch1"
    by blast
  from exchange_success[OF assms(2)] obtain ch2 where
    second: "exchange_and_link w2 (the code2) u db1 = (db2, evs2, Inr (Inr ch2))"
    and id2: "er_channel_id reply2 = ch_id ch2"
    by blast
  from assms(3) id1 id2 have "ch_id ch2 = ch_id ch1" by simp
  from relink_core[OF first second this] show ?thesis
    unfolding id1 by blast
qed

subsection \<open>Example runs\<close>






lemma example_parse:
  "parse_state text_uuid_module example_state
   = Inr (example_user, ''youtube'', ''9f1c2d3e-0000-4000-8000-aabbccddeeff'')"
  by (simp add: parse_state_def text_uuid_module_def example_state_def example_user_def)

subsection \<open>The loop over the platforms\<close>

lemma uploader_loop_ends: "(snd (uploader_loop cs) \<noteq> None) = list_ex is_response cs"
  by (induction cs rule: uploader_loop.induct) (auto split: prod.splits)

lemma uploader_events:
  "ev \<in> set (fst (uploader_upload_video w s path title description tags c p k))
   \<Longrightarrow> ev = EvNextChunk \<or> (\<exists>b. ev = EvInsert b)"
proof -
  assume m: "ev \<in> set (fst (uploader_upload_video w s path title description tags c p k))"
  obtain evs r where l: "uploader_loop (uw_chunks w) = (evs, r)"
    by (cases "uploader_loop (uw_chunks w)") auto
  with uploader_loop_events[of "uw_chunks w"] have "set evs \<subseteq> {EvNextChunk}" by simp
  with m l show ?thesis
    by (auto simp: uploader_upload_video_def Let_def
             split: if_splits option.splits exn.splits sum.splits)
qed

lemma uploader_returns:
  assumes "list_ex is_response (uw_chunks w)"
  shows "snd (uploader_upload_video w s path title description tags c p k) \<noteq> None"
proof -
  from assms obtain evs resp where "uploader_loop (uw_chunks w) = (evs, Some resp)"
    using uploader_loop_ends[of "uw_chunks w"]
    by (cases "uploader_loop (uw_chunks w)") auto
  then show ?thesis
    by (simp add: uploader_upload_video_def Let_def split: option.splits exn.splits sum.splits)
qed

lemma router_upload_returns:
  assumes "list_ex is_response (uw_chunks (yw_uploader w))"
  shows "\<exists>evs r. router_upload request w video = Some (evs, r)
           \<and> list_all (\<lambda>ev. ev = EvNextChunk \<or> (\<exists>b. ev = EvInsert b)) evs"
proof (cases "v_file_path video")
  case None
  then show ?thesis by (simp add: router_upload_def)
next
  case (Some file_path)
  let ?call = "uploader_call request w video (full_video_path_of (yw_video_dir w) file_path)"
  obtain evs x where c: "?call = (evs, x)" by (cases ?call) auto
  have "snd ?call \<noteq> None"
    unfolding uploader_call_def Let_def by (rule uploader_returns[OF assms])
  with c obtain y where x: "x = Some y" by (cases x) auto
  have "\<forall>ev \<in> set (fst ?call). ev = EvNextChunk \<or> (\<exists>b. ev = EvInsert b)"
    unfolding uploader_call_def Let_def using uploader_events by blast
  with c have "list_all (\<lambda>ev. ev = EvNextChunk \<or> (\<exists>b. ev = EvInsert b)) evs"
    by (simp add: list_all_iff)
  with Some c x show ?thesis
    by (cases y) (auto simp: router_upload_def Let_def)
qed

lemma youtube_try_shape:
  assumes "list_ex is_response (uw_chunks (yw_uploader w))"
  shows "\<exists>new evs x. youtube_try request w rp = Some (rp @ new, evs, x)
           \<and> list_all (\<lambda>r. pr_platform r = ''youtube'') new
           \<and> length new \<le> 1
           \<and> (new = [] \<longrightarrow> x \<noteq> None)
           \<and> (new \<noteq> [] \<longrightarrow> x = yw_commit_final w)
           \<and> list_all (\<lambda>ev. \<forall>t. ev \<noteq> EvRefresh t) evs"
proof (cases "yw_video w")
  case (Inl e)
  then show ?thesis by (simp add: youtube_try_def)
next
  case v: (Inr vo)
  show ?thesis
  proof (cases vo)
    case None
    with v show ?thesis by (simp add: youtube_try_def)
  next
    case (Some video)
    note video = v Some
    show ?thesis
    proof (cases "yw_account w")
      case (Inl e)
      with video show ?thesis by (simp add: youtube_try_def)
    next
      case a: (Inr ao)
      show ?thesis
      proof (cases ao)
        case None
        with video a show ?thesis by (simp add: youtube_try_def)
      next
        case (Some youtube_account)
        note account = a Some
        show ?thesis
        proof (cases "yw_commit_post w")
          case (Some e)
          with video account show ?thesis by (simp add: youtube_try_def)
        next
          case None
          note committed = None
          show ?thesis
          proof (cases "yw_auth_success w")
            case False
            with video account committed show ?thesis
              by (simp add: youtube_try_def Let_def split: option.splits)
          next
            case True
            from router_upload_returns[OF assms, of request video] obtain evs r where
              ru: "router_upload request w video = Some (evs, r)"
              and evs: "list_all (\<lambda>ev. ev = EvNextChunk \<or> (\<exists>b. ev = EvInsert b)) evs"
              by blast
            from evs have no_refresh: "list_all (\<lambda>ev. \<forall>t. ev \<noteq> EvRefresh t) evs"
              by (auto simp: list_all_iff)
            from video account committed True ru no_refresh show ?thesis
              by (auto simp: youtube_try_def Let_def posted_response_def failed_response_def
                       split: option.splits)
          qed
        qed
      qed
    qed
  qed
qed

lemma youtube_branch_shape:
  assumes "list_ex is_response (uw_chunks (yw_uploader w))"
  shows "\<exists>new evs. youtube_branch request w rp = Some (rp @ new, evs)
           \<and> list_all (\<lambda>r. pr_platform r = ''youtube'') new
           \<and> 1 \<le> length new \<and> length new \<le> 2
           \<and> (yw_commit_final w = None \<longrightarrow> length new = 1)
           \<and> list_all (\<lambda>ev. \<forall>t. ev \<noteq> EvRefresh t) evs"
proof -
  from youtube_try_shape[OF assms, of request rp] obtain new evs x where
    t: "youtube_try request w rp = Some (rp @ new, evs, x)"
    and p: "list_all (\<lambda>r. pr_platform r = ''youtube'') new"
    and l: "length new \<le> 1"
    and e: "new = [] \<longrightarrow> x \<noteq> None"
    and c: "new \<noteq> [] \<longrightarrow> x = yw_commit_final w"
    and r: "list_all (\<lambda>ev. \<forall>t. ev \<noteq> EvRefresh t) evs"
    by blast
  show ?thesis
  proof (cases x)
    case None
    with e have "new \<noteq> []" by simp
    with l have "length new = 1" by (cases new) auto
    with t p r None show ?thesis by (simp add: youtube_branch_def)
  next
    case (Some err)
    let ?new = "new @ [failed_response request (yw_uuid4 w) (''YouTube error: '' @ exn_str err)]"
    have "youtube_branch request w rp = Some (rp @ ?new, evs)"
      using t Some by (simp add: youtube_branch_def)
    moreover have "list_all (\<lambda>r. pr_platform r = ''youtube'') ?new"
      using p by (simp add: failed_response_def)
    moreover have "1 \<le> length ?new \<and> length ?new \<le> 2" using l by simp
    moreover have "yw_commit_final w = None \<longrightarrow> length ?new = 1"
    proof
      assume ok: "yw_commit_final w = None"
      have "new = []"
      proof (rule ccontr)
        assume "new \<noteq> []"
        with c have "x = yw_commit_final w" by simp
        with Some ok show False by simp
      qed
      then show "length ?new = 1" by simp
    qed
    ultimately have "youtube_branch request w rp = Some (rp @ ?new, evs)
           \<and> list_all (\<lambda>r. pr_platform r = ''youtube'') ?new
           \<and> 1 \<le> length ?new \<and> length ?new \<le> 2
           \<and> (yw_commit_final w = None \<longrightarrow> length ?new = 1)
           \<and> list_all (\<lambda>ev. \<forall>t. ev \<noteq> EvRefresh t) evs"
      using r by simp
    then show ?thesis by (intro exI)
  qed
qed

lemma create_posts_loop_shape:
  assumes "\<forall>k < length ps. list_ex is_response (uw_chunks (yw_uploader (w (i + k))))"
    and "list_all (\<lambda>ev. \<forall>t. ev \<noteq> EvRefresh t) calls"
  shows "\<exists>new calls'. create_posts_loop request w i ps (rp, calls) = Some (rp @ new, calls')
           \<and> list_all (\<lambda>r. pr_platform r = ''youtube'') new
           \<and> length (filter (\<lambda>p. p = ''youtube'') ps) \<le> length new
           \<and> length new \<le> 2 * length (filter (\<lambda>p. p = ''youtube'') ps)
           \<and> ((\<forall>k < length ps. yw_commit_final (w (i + k)) = None)
                \<longrightarrow> length new = length (filter (\<lambda>p. p = ''youtube'') ps))
           \<and> list_all (\<lambda>ev. \<forall>t. ev \<noteq> EvRefresh t) calls'"
  using assms
proof (induction ps arbitrary: i rp calls)
  case Nil
  then show ?case by simp
next
  case (Cons platform rest)
  have rest_ok: "\<forall>k < length rest. list_ex is_response (uw_chunks (yw_uploader (w (Suc i + k))))"
    using Cons.prems(1) by fastforce
  have commits: "(\<forall>k < length (platform # rest). yw_commit_final (w (i + k)) = None)
                 \<Longrightarrow> yw_commit_final (w i) = None
                     \<and> (\<forall>k < length rest. yw_commit_final (w (Suc i + k)) = None)"
    by fastforce
  show ?case
  proof (cases "platform = ''youtube''")
    case False
    from Cons.IH[OF rest_ok Cons.prems(2), of rp] obtain new calls' where
      "create_posts_loop request w (Suc i) rest (rp, calls) = Some (rp @ new, calls')"
      "list_all (\<lambda>r. pr_platform r = ''youtube'') new"
      "length (filter (\<lambda>p. p = ''youtube'') rest) \<le> length new"
      "length new \<le> 2 * length (filter (\<lambda>p. p = ''youtube'') rest)"
      "(\<forall>k < length rest. yw_commit_final (w (Suc i + k)) = None)
         \<longrightarrow> length new = length (filter (\<lambda>p. p = ''youtube'') rest)"
      "list_all (\<lambda>ev. \<forall>t. ev \<noteq> EvRefresh t) calls'"
      by blast
    with False commits show ?thesis by auto
  next
    case True
    have "list_ex is_response (uw_chunks (yw_uploader (w i)))"
      using Cons.prems(1) by fastforce
    from youtube_branch_shape[OF this, of request rp] obtain new1 evs where
      b: "youtube_branch request (w i) rp = Some (rp @ new1, evs)"
      and b1: "list_all (\<lambda>r. pr_platform r = ''youtube'') new1"
      and b2: "1 \<le> length new1" "length new1 \<le> 2"
      and b3: "yw_commit_final (w i) = None \<longrightarrow> length new1 = 1"
      and b4: "list_all (\<lambda>ev. \<forall>t. ev \<noteq> EvRefresh t) evs"
      by auto
    from Cons.prems(2) b4 have calls_ok: "list_all (\<lambda>ev. \<forall>t. ev \<noteq> EvRefresh t) (calls @ evs)"
      by simp
    from Cons.IH[OF rest_ok calls_ok, of "rp @ new1"] obtain new2 calls' where
      r: "create_posts_loop request w (Suc i) rest (rp @ new1, calls @ evs)
          = Some ((rp @ new1) @ new2, calls')"
      and r1: "list_all (\<lambda>r. pr_platform r = ''youtube'') new2"
      and r2: "length (filter (\<lambda>p. p = ''youtube'') rest) \<le> length new2"
              "length new2 \<le> 2 * length (filter (\<lambda>p. p = ''youtube'') rest)"
      and r3: "(\<forall>k < length rest. yw_commit_final (w (Suc i + k)) = None)
         \<longrightarrow> length new2 = length (filter (\<lambda>p. p = ''youtube'') rest)"
      and r4: "list_all (\<lambda>ev. \<forall>t. ev \<noteq> EvRefresh t) calls'"
      by blast
    have "create_posts_loop request w i (platform # rest) (rp, calls)
          = Some (rp @ (new1 @ new2), calls')"
      using True b r by simp
    moreover have "list_all (\<lambda>r. pr_platform r = ''youtube'') (new1 @ new2)"
      using b1 r1 by simp
    moreover have "length (filter (\<lambda>p. p = ''youtube'') (platform # rest)) \<le> length (new1 @ new2)"
      using True b2 r2 by simp
    moreover have "length (new1 @ new2) \<le> 2 * length (filter (\<lambda>p. p = ''youtube'') (platform # rest))"
      using True b2 r2 by simp
    moreover have "(\<forall>k < length (platform # rest). yw_commit_final (w (i + k)) = None)
                \<longrightarrow> length (new1 @ new2) = length (filter (\<lambda>p. p = ''youtube'') (platform # rest))"
      using True b3 r3 commits by auto
    ultimately have "create_posts_loop request w i (platform # rest) (rp, calls)
             = Some (rp @ (new1 @ new2), calls')
           \<and> list_all (\<lambda>r. pr_platform r = ''youtube'') (new1 @ new2)
           \<and> length (filter (\<lambda>p. p = ''youtube'') (platform # rest)) \<le> length (new1 @ new2)
           \<and> length (new1 @ new2) \<le> 2 * length (filter (\<lambda>p. p = ''youtube'') (platform # rest))
           \<and> ((\<forall>k < length (platform # rest). yw_commit_final (w (i + k)) = None)
                \<longrightarrow> length (new1 @ new2) = length (filter (\<lambda>p. p = ''youtube'') (platform # rest)))
           \<and> list_all (\<lambda>ev. \<forall>t. ev \<noteq> EvRefresh t) calls'"
      using r4 by simp
    then show ?thesis by (intro exI)
  qed
qed

lemma api_loop_events: "set (fst (api_loop r cs)) \<subseteq> {EvNextChunk}"
proof (induction r cs rule: api_loop.induct)
  case (4 r st content msg rest)
  then show ?case by (auto simp: Let_def split: prod.splits)
qed (auto split: prod.splits)

lemma example_run:
  "create_posts example_request example_worlds
   = Some ([posted_response example_request ''post-1'' ''abc'' (watch_url ''abc'')],
           [EvAuthenticate ''stale'' (Some ''refresh''),
            EvInsert (uploader_request_body ''Title'' ''AI-generated video: ''
                        (Some [''AI'', ''Video'', ''Generated'']) ''28'' ''private'' False),
            EvNextChunk])"
  by (simp add: create_posts_def example_request_def example_worlds_def example_yt_world_def
        youtube_branch_def youtube_try_def router_upload_def uploader_call_def
        uploader_upload_video_def
        youtube_settings_of_def empty_settings_def get_or_def or_else_def upload_succeeded_def
        example_account_def new_youtube_account_def posted_response_def)

lemma get_youtube_service_not_expired:
  assumes "\<not> aw_creds_expired w"
  shows "fst (get_youtube_service w account) = account
       \<and> fst (snd (get_youtube_service w account)) = [EvBuild (access_token account)]"
  using assms by (simp add: get_youtube_service_def split: option.splits)

lemma create_posts_shape:
  assumes "\<forall>i < length (rq_platforms request).
             list_ex is_response (uw_chunks (yw_uploader (w i)))"
  shows "\<exists>response_posts calls. create_posts request w = Some (response_posts, calls)
     \<and> list_all (\<lambda>r. pr_platform r = ''youtube'') response_posts
     \<and> length (filter (\<lambda>p. p = ''youtube'') (rq_platforms request)) \<le> length response_posts
     \<and> length response_posts \<le> 2 * length (filter (\<lambda>p. p = ''youtube'') (rq_platforms request))
     \<and> ((\<forall>i < length (rq_platforms request). yw_commit_final (w i) = None)
          \<longrightarrow> length response_posts
              = length (filter (\<lambda>p. p = ''youtube'') (rq_platforms request)))"
proof -
  have "\<forall>k < length (rq_platforms request).
          list_ex is_response (uw_chunks (yw_uploader (w (0 + k))))"
    using assms by simp
  from create_posts_loop_shape[OF this, of "[]" request "[]"]
  show ?thesis
    unfolding create_posts_def by auto
qed

subsection \<open>\<open>add_social_account_manual\<close>\<close>

lemma manual_add_unchanged:
  "(ac_platform account_data \<notin> set PLATFORM_CONFIGS \<longrightarrow>
      add_social_account_manual w account_data u db
      = (db, Inl (HTTPException 400 (''Unsupported platform: '' @ ac_platform account_data))))
   \<and> (list_ex (same_account u account_data) db \<longrightarrow>
      add_social_account_manual w account_data u db
      = (db, Inl (HTTPException 400
                   (if ac_platform account_data \<in> set PLATFORM_CONFIGS
                    then ''Account already exists for '' @ ac_platform account_data
                    else ''Unsupported platform: '' @ ac_platform account_data))))
   \<and> (ad_commit w \<noteq> None \<longrightarrow>
      fst (add_social_account_manual w account_data u db) = db
      \<and> (\<exists>detail. snd (add_social_account_manual w account_data u db)
                    = Inl (HTTPException 400 detail)))"
proof (intro conjI impI)
  assume "ac_platform account_data \<notin> set PLATFORM_CONFIGS"
  then show "add_social_account_manual w account_data u db
      = (db, Inl (HTTPException 400 (''Unsupported platform: '' @ ac_platform account_data)))"
    by (simp add: add_social_account_manual_def)
next
  assume "list_ex (same_account u account_data) db"
  then obtain a where "find (same_account u account_data) db = Some a"
    by (cases "find (same_account u account_data) db") (auto simp: find_None_iff list_ex_iff)
  then show "add_social_account_manual w account_data u db
      = (db, Inl (HTTPException 400
                   (if ac_platform account_data \<in> set PLATFORM_CONFIGS
                    then ''Account already exists for '' @ ac_platform account_data
                    else ''Unsupported platform: '' @ ac_platform account_data)))"
    by (simp add: add_social_account_manual_def)
next
  assume c: "ad_commit w \<noteq> None"
  then show "fst (add_social_account_manual w account_data u db) = db"
    by (auto simp: add_social_account_manual_def Let_def split: option.splits)
  from c show "\<exists>detail. snd (add_social_account_manual w account_data u db)
                    = Inl (HTTPException 400 detail)"
    by (auto simp: add_social_account_manual_def Let_def split: option.splits)
qed

section \<open>The claims\<close>

text \<open>
  C1. For a request that names the platforms \<open>youtube\<close> and \<open>linkedin\<close>, with the video
  and a YouTube account at hand and an upload that succeeds, \<open>create_posts\<close> returns a list
  of one entry, for \<open>youtube\<close>: \<open>linkedin\<close> takes the branch \<open>else: pass\<close>, left under the
  comment \<open>Other platforms: Regular demo posting\<close>, and gets no entry at all, neither a
  result nor a failure that says the platform is not supported.
\<close>

theorem unsupported_platform_dropped:
  "rq_platforms example_request = [''youtube'', ''linkedin'']
   \<and> map_option (map pr_platform \<circ> fst) (create_posts example_request example_worlds)
     = Some [''youtube'']"
  by (simp add: example_run) (simp add: example_request_def posted_response_def)

text \<open>
  C2. As stated, the claim fails: the callback keeps no record of the state values issued or
  used, and a second callback that presents the state of the first one exchanges its code
  and links the channel again.
\<close>

theorem state_replay_counterexample:
  "snd (youtube_oauth_callback text_uuid_module (linking_world ''tok'' 100 ''row-1'')
          (Some ''code'') (Some example_state) None [])
   = ([EvTokenExchange ''code'', EvChannelFetch ''tok''], SuccessRedirect ''Channel'')
   \<and> snd (youtube_oauth_callback text_uuid_module (linking_world ''tok'' 100 ''row-2'')
          (Some ''code'') (Some example_state) None
          (fst (youtube_oauth_callback text_uuid_module (linking_world ''tok'' 100 ''row-1'')
                  (Some ''code'') (Some example_state) None [])))
   = ([EvTokenExchange ''code'', EvChannelFetch ''tok''], SuccessRedirect ''Channel'')"
  by (simp add: youtube_oauth_callback_def truthy_def parse_state_def text_uuid_module_def
        exchange_and_link_def linking_world_def link_channel_def example_state_def
        example_user_def example_channel_def is_linked_def new_youtube_account_def)

text \<open>
  C2, as amended. The callback is stateless: the calls it makes and the redirect it answers
  with do not depend on the table, and it goes on to the token exchange exactly when the
  request carries no \<open>error\<close>, a code and a state that are not empty, and a state that
  \<open>parse_state\<close> reads (three parts, the first a UUID), whether that state was presented
  before or not.
\<close>

theorem callback_is_stateless:
  "snd (youtube_oauth_callback lib w code state err db)
     = snd (youtube_oauth_callback lib w code state err db')
   \<and> (EvTokenExchange c \<in> set (fst (snd (youtube_oauth_callback lib w code state err db))))
     = (\<not> truthy err \<and> truthy code \<and> truthy state \<and> c = the code
        \<and> (\<exists>r. parse_state lib (the state) = Inr r))"
proof
  show "snd (youtube_oauth_callback lib w code state err db)
     = snd (youtube_oauth_callback lib w code state err db')"
  proof (cases "parse_state lib (the state)")
    case (Inl e)
    then show ?thesis by (simp add: youtube_oauth_callback_def)
  next
    case (Inr r)
    obtain u p n where r: "r = (u, p, n)" by (cases r) auto
    show ?thesis
      using Inr r exchange_and_link_rest[of w "the code" u db db']
      by (cases "exchange_and_link w (the code) u db"; cases "exchange_and_link w (the code) u db'")
         (auto simp: youtube_oauth_callback_def split: sum.splits early_exit.splits)
  qed
next
  show "(EvTokenExchange c \<in> set (fst (snd (youtube_oauth_callback lib w code state err db))))
     = (\<not> truthy err \<and> truthy code \<and> truthy state \<and> c = the code
        \<and> (\<exists>r. parse_state lib (the state) = Inr r))"
  proof (cases "parse_state lib (the state)")
    case (Inl e)
    then show ?thesis by (simp add: youtube_oauth_callback_def)
  next
    case (Inr r)
    obtain u p n where r: "r = (u, p, n)" by (cases r) auto
    show ?thesis
      using Inr r exchange_and_link_events[of c w "the code" u db]
      by (cases "exchange_and_link w (the code) u db")
         (auto simp: youtube_oauth_callback_def split: sum.splits early_exit.splits)
  qed
qed

theorem callback_is_stateless_witness:
  "snd (youtube_oauth_callback text_uuid_module (linking_world ''tok'' 100 ''row-2'')
          (Some ''code'') (Some example_state) None [])
   = snd (youtube_oauth_callback text_uuid_module (linking_world ''tok'' 100 ''row-2'')
          (Some ''code'') (Some example_state) None
          [new_youtube_account example_user example_channel ''tok-1'' (Some ''refresh'') None 100 ''row-1''])
   \<and> EvTokenExchange ''code''
       \<in> set (fst (snd (youtube_oauth_callback text_uuid_module (linking_world ''tok'' 100 ''row-2'')
                          (Some ''code'') (Some example_state) None [])))"
proof -
  have accepted: "\<not> truthy None \<and> truthy (Some ''code'') \<and> truthy (Some example_state)
      \<and> ''code'' = the (Some ''code'')
      \<and> (\<exists>r. parse_state text_uuid_module (the (Some example_state)) = Inr r)"
    by (simp add: truthy_def example_state_def example_parse [unfolded example_state_def])
  from accepted
    callback_is_stateless
      [where lib = text_uuid_module and w = "linking_world ''tok'' 100 ''row-2''"
         and code = "Some ''code''" and state = "Some example_state" and err = None
         and db = "[]"
         and db' = "[new_youtube_account example_user example_channel ''tok-1''
                      (Some ''refresh'') None 100 ''row-1'']"
         and c = "''code''"]
  show ?thesis by blast
qed

text \<open>
  C3. The body that \<open>YouTubeIntegration.post_video\<close> sends for a request with 51 tags
  carries all 51 of them: its slice is \<open>[:500]\<close>, where the two sibling upload paths
  cut the tags at 50 (\<open>uploader_body_limits\<close> above shows the limits 100, 5000 and 50 for
  \<open>YouTubeUploader.upload_video\<close>).
\<close>

theorem post_video_sends_51_tags:
  "post_video_body
     \<lparr> pd_title = Some ''t'', pd_description = Some (Some ''d''),
       pd_tags = Some (replicate 51 ''#ai''), pd_platform_settings = None,
       pd_video_path = Some ''v.mp4'' \<rparr>
   = Inr \<lparr> body_snippet = \<lparr> sn_title = ''t'', sn_description = ''d'',
                            sn_tags = replicate 51 ''ai'', sn_categoryId = ''22'' \<rparr>,
           body_status = \<lparr> st_privacyStatus = ''private'', st_madeForKids = False \<rparr> \<rparr>
   \<and> length (replicate 51 ''ai'') = 51
   \<and> fst (post_video
            \<lparr> pv_init = Inr \<lparr> ir_status = 503, ir_location = None, ir_text = Inr ''busy'' \<rparr>,
              pv_open = None, pv_put = Inl (PyExc ConnectionError ''unused'') \<rparr>
            ''token''
            \<lparr> pd_title = Some ''t'', pd_description = Some (Some ''d''),
              pd_tags = Some (replicate 51 ''#ai''), pd_platform_settings = None,
              pd_video_path = Some ''v.mp4'' \<rparr>)
     = [EvInitSession
          \<lparr> body_snippet = \<lparr> sn_title = ''t'', sn_description = ''d'',
                               sn_tags = replicate 51 ''ai'', sn_categoryId = ''22'' \<rparr>,
            body_status = \<lparr> st_privacyStatus = ''private'', st_madeForKids = False \<rparr> \<rparr>]"
  by (simp add: post_video_def post_video_try_def post_video_body_def py_remove_def get_or_def
        empty_settings_def)

text \<open>
  C4. When every \<open>next_chunk()\<close> call raises, the loop of
  \<open>YouTubeUploader.upload_video\<close> is still running after any number \<open>n\<close> of calls:
  it retries every exception, also a status that is not retriable, with no bound, and
  \<open>create_posts\<close>, which calls it, has not answered either. The loop
  of \<open>YouTubeAPI.upload_video\<close> bounds its retries (\<open>api_loop_bounded\<close> above), but a
  timeout leaves it at once, with no retry.
\<close>

theorem uploader_retries_without_bound:
  "uploader_upload_video
     \<lparr> uw_file_size = Some 1000, uw_media = None,
       uw_chunks = replicate n (Raises (HttpError 403 ''quotaExceeded'' ''HttpError 403'')),
       uw_error_message = Inr None \<rparr>
     True video_path title description tags category_id privacy_status made_for_kids
   = (EvInsert (uploader_request_body title description tags category_id privacy_status
                  made_for_kids) # replicate n EvNextChunk, None)
   \<and> create_posts example_request
       (\<lambda>i. example_yt_world
              \<lparr> yw_uploader :=
                  \<lparr> uw_file_size = Some 1000, uw_media = None,
                    uw_chunks = replicate n (Raises (HttpError 403 ''quotaExceeded'' ''HttpError 403'')),
                    uw_error_message = Inr None \<rparr> \<rparr>)
     = None
   \<and> api_loop 0 (Raises (PyExc TimeoutError ''timed out'') # rest)
     = ([EvNextChunk], Some (Inl (PyExc TimeoutError ''timed out'')))"
proof -
  let ?uploader = "\<lparr> uw_file_size = Some 1000, uw_media = None,
       uw_chunks = replicate n (Raises (HttpError 403 ''quotaExceeded'' ''HttpError 403'')),
       uw_error_message = Inr None \<rparr>"
  let ?w = "example_yt_world\<lparr> yw_uploader := ?uploader \<rparr>"
  have upload: "\<And>video_path title description tags category_id privacy_status made_for_kids.
      uploader_upload_video ?uploader True video_path title description tags category_id
        privacy_status made_for_kids
      = (EvInsert (uploader_request_body title description tags category_id privacy_status
                     made_for_kids) # replicate n EvNextChunk, None)"
    by (simp add: uploader_upload_video_def uploader_loop_raises)
  have "router_upload example_request ?w
          \<lparr> v_id = ''video-1'', v_file_path = Some ''out/v1.mp4'', v_original_text = None \<rparr>
        = None"
    by (simp add: router_upload_def uploader_call_def upload Let_def example_yt_world_def)
  then have "youtube_try example_request ?w [] = None"
    by (simp add: youtube_try_def example_yt_world_def)
  then have "youtube_branch example_request ?w [] = None"
    by (simp add: youtube_branch_def)
  then have posts: "create_posts example_request (\<lambda>i. ?w) = None"
    by (simp add: create_posts_def example_request_def)
  have timeout: "api_loop 0 (Raises (PyExc TimeoutError ''timed out'') # rest)
     = ([EvNextChunk], Some (Inl (PyExc TimeoutError ''timed out'')))"
    by simp
  from upload posts timeout show ?thesis by blast
qed

text \<open>
  C5. \<open>YouTubeUploader.upload_video\<close> checks that the file exists but never its size: a
  file one byte over the limit of 128 GiB is uploaded. \<open>YouTubeAPI.upload_video\<close>
  rejects it before any call (\<open>api_upload_video_validates_first\<close> above).
\<close>

theorem uploader_ignores_file_size:
  "uploader_upload_video
     \<lparr> uw_file_size = Some (MAX_FILE_SIZE + 1), uw_media = None,
       uw_chunks = [Response [(''id'', ''abc'')]], uw_error_message = Inr None \<rparr>
     True ''big.mp4'' ''t'' ''d'' None ''22'' ''private'' False
   = ([EvInsert (uploader_request_body ''t'' ''d'' None ''22'' ''private'' False), EvNextChunk],
      Some (Inr (upload_succeeded ''abc'')))"
  by (simp add: uploader_upload_video_def)

text \<open>
  C6. An account whose stored token expired at 50 and which holds a refresh token is
  uploaded with the stored token, at time 100, on both paths. \<open>YouTubeAPI.upload_video\<close>
  goes through \<open>get_youtube_service\<close>, whose credentials carry no expiry and so report
  that they have not expired: the branch under the comment \<open>Refresh token if expired\<close> is
  not taken, the service is built with the stored token, and \<open>insert\<close> and \<open>next_chunk\<close>
  follow. \<open>create_posts\<close> calls \<open>authenticate_with_token\<close>, \<open>insert\<close> and \<open>next_chunk\<close>.
  Neither run contains a refresh.
\<close>

theorem stale_token_is_uploaded:
  "token_expires_at example_account = Some 50
   \<and> refresh_token example_account = Some ''refresh''
   \<and> access_token example_account = ''stale''
   \<and> api_upload_video
        \<lparr> aw_file_size = Some 1000, aw_creds_expired = False,
          aw_refresh = Inr (''fresh'', Some 3700), aw_build = None, aw_media = None,
          aw_chunks = [Response [(''id'', ''abc'')]] \<rparr>
        example_account ''v.mp4'' ''Title'' (Some ''text'') None ''22'' ''private'' None
     = (example_account,
        [EvBuild ''stale'',
         EvInsert \<lparr> body_snippet = \<lparr> sn_title = ''Title'', sn_description = ''text'',
                                      sn_tags = [], sn_categoryId = ''22'' \<rparr>,
                    body_status = \<lparr> st_privacyStatus = ''private'', st_madeForKids = False \<rparr> \<rparr>,
         EvNextChunk],
        Some (Inr (upload_succeeded ''abc'')))
   \<and> yw_account example_yt_world = Inr (Some example_account)
   \<and> yw_now example_yt_world = 100
   \<and> map_option snd (create_posts example_request example_worlds)
     = Some [EvAuthenticate ''stale'' (Some ''refresh''),
             EvInsert (uploader_request_body ''Title'' ''AI-generated video: ''
                         (Some [''AI'', ''Video'', ''Generated'']) ''28'' ''private'' False),
             EvNextChunk]"
proof -
  have acc: "token_expires_at example_account = Some 50
      \<and> refresh_token example_account = Some ''refresh''
      \<and> access_token example_account = ''stale''"
    by (simp add: example_account_def new_youtube_account_def)
  have api: "api_upload_video
        \<lparr> aw_file_size = Some 1000, aw_creds_expired = False,
          aw_refresh = Inr (''fresh'', Some 3700), aw_build = None, aw_media = None,
          aw_chunks = [Response [(''id'', ''abc'')]] \<rparr>
        example_account ''v.mp4'' ''Title'' (Some ''text'') None ''22'' ''private'' None
     = (example_account,
        [EvBuild ''stale'',
         EvInsert \<lparr> body_snippet = \<lparr> sn_title = ''Title'', sn_description = ''text'',
                                      sn_tags = [], sn_categoryId = ''22'' \<rparr>,
                    body_status = \<lparr> st_privacyStatus = ''private'', st_madeForKids = False \<rparr> \<rparr>,
         EvNextChunk],
        Some (Inr (upload_succeeded ''abc'')))"
    by (simp add: api_upload_video_def api_upload_try_def get_youtube_service_def acc
          api_request_body_def MAX_FILE_SIZE_def get_or_def)
  have world: "yw_account example_yt_world = Inr (Some example_account)
      \<and> yw_now example_yt_world = 100"
    by (simp add: example_yt_world_def)
  have run: "map_option snd (create_posts example_request example_worlds)
     = Some [EvAuthenticate ''stale'' (Some ''refresh''),
             EvInsert (uploader_request_body ''Title'' ''AI-generated video: ''
                         (Some [''AI'', ''Video'', ''Generated'']) ''28'' ''private'' False),
             EvNextChunk]"
    by (simp add: example_run)
  show ?thesis
    using conjI[OF acc conjI[OF api conjI[OF world run]]] unfolding conj_assoc .
qed




text \<open>
  C8. The publish operation of the adapter returns a result record and never lets an
  exception out. \<open>YouTubeIntegration.post_video\<close> returns, for every access token, every
  \<open>post_data\<close> and every behaviour of the network, a record that is either a success
  with the post id and the watch URL of that id, or a failure with an error text.
  \<open>YouTubeAPI.upload_video\<close> never ends with an exception, and once \<open>next_chunk()\<close>
  gives a response or an error that is not retried, or has failed with a retriable status
  more than \<open>MAX_RETRIES\<close> times, it returns such a record too.
\<close>

theorem publish_never_raises:
  "(\<exists>evs r. post_video pw token pd = (evs, Inr r) \<and>
      (if pub_success r
       then (\<exists>vid. pub_post_id r = Some vid \<and> pub_post_url r = Some (watch_url vid))
       else pub_error r \<noteq> None))
   \<and> (\<forall>a' evs e. api_upload_video aw account video_path title description tags category_id
                     privacy_status made_for_kids \<noteq> (a', evs, Some (Inl e)))
   \<and> (list_ex final_outcome (aw_chunks aw)
        \<or> MAX_RETRIES < length (filter retried (aw_chunks aw)) \<longrightarrow>
       (\<exists>a' evs r. api_upload_video aw account video_path title description tags category_id
                      privacy_status made_for_kids = (a', evs, Some (Inr r)) \<and>
          (if success r
           then (\<exists>vid. video_id r = Some vid \<and> video_url r = Some (watch_url vid))
           else error r \<noteq> None)))"
proof (intro conjI impI allI)
  show "\<exists>evs r. post_video pw token pd = (evs, Inr r) \<and>
      (if pub_success r
       then (\<exists>vid. pub_post_id r = Some vid \<and> pub_post_url r = Some (watch_url vid))
       else pub_error r \<noteq> None)"
    by (rule post_video_returns)
next
  fix a' evs e
  show "api_upload_video aw account video_path title description tags category_id
          privacy_status made_for_kids \<noteq> (a', evs, Some (Inl e))"
    by (rule api_upload_video_no_exn)
next
  assume "list_ex final_outcome (aw_chunks aw)
          \<or> MAX_RETRIES < length (filter retried (aw_chunks aw))"
  then show "\<exists>a' evs r. api_upload_video aw account video_path title description tags category_id
                      privacy_status made_for_kids = (a', evs, Some (Inr r)) \<and>
          (if success r
           then (\<exists>vid. video_id r = Some vid \<and> video_url r = Some (watch_url vid))
           else error r \<noteq> None)"
    by (rule api_upload_video_returns)
qed

theorem publish_never_raises_witness:
  "list_ex final_outcome [Raises (HttpError 503 ''busy'' ''HttpError 503''), Raises (HttpError 403 ''quota'' ''HttpError 403'')]
   \<and> (\<exists>a' evs r.
        api_upload_video
          \<lparr> aw_file_size = Some 1000, aw_creds_expired = False, aw_refresh = Inl (Exception ''unused''),
            aw_build = None, aw_media = None,
            aw_chunks = [Raises (HttpError 503 ''busy'' ''HttpError 503''), Raises (HttpError 403 ''quota'' ''HttpError 403'')] \<rparr>
          \<lparr> access_token = ''tok'', refresh_token = None, token_expires_at = None \<rparr>
          ''v.mp4'' ''title'' (Some ''text'') None ''22'' ''private'' None
        = (a', evs, Some (Inr r)) \<and> \<not> success r \<and> error r = Some ''HttpError 403'')
   \<and> (\<exists>evs r.
        post_video \<lparr> pv_init = Inl (PyExc ConnectionError ''no route''), pv_open = None,
                     pv_put = Inl (PyExc ConnectionError ''no route'') \<rparr> ''tok''
          \<lparr> pd_title = Some ''title'', pd_description = Some None, pd_tags = Some [],
            pd_platform_settings = None, pd_video_path = Some ''v.mp4'' \<rparr>
        = (evs, Inr r) \<and> \<not> pub_success r \<and> pub_error r = Some ''no route'')"
proof -
  have h: "list_ex final_outcome [Raises (HttpError 503 ''busy'' ''HttpError 503''), Raises (HttpError 403 ''quota'' ''HttpError 403'')]"
    by (simp add: RETRIABLE_STATUS_CODES_def)
  show ?thesis
    using h publish_never_raises
      [where aw = "\<lparr> aw_file_size = Some 1000, aw_creds_expired = False,
                     aw_refresh = Inl (Exception ''unused''), aw_build = None, aw_media = None,
                     aw_chunks = [Raises (HttpError 503 ''busy'' ''HttpError 503''), Raises (HttpError 403 ''quota'' ''HttpError 403'')] \<rparr>"
         and account = "\<lparr> access_token = ''tok'', refresh_token = None, token_expires_at = None \<rparr>"
         and video_path = "''v.mp4''" and title = "''title''" and description = "Some ''text''"
         and tags = None and category_id = "''22''" and privacy_status = "''private''"
         and made_for_kids = None
         and pw = "\<lparr> pv_init = Inl (PyExc ConnectionError ''no route''), pv_open = None,
                     pv_put = Inl (PyExc ConnectionError ''no route'') \<rparr>"
         and token = "''tok''"
         and pd = "\<lparr> pd_title = Some ''title'', pd_description = Some None, pd_tags = Some [],
                     pd_platform_settings = None, pd_video_path = Some ''v.mp4'' \<rparr>"]
    by (simp add: api_upload_video_def api_upload_try_def MAX_FILE_SIZE_def get_youtube_service_def
          api_request_body_def RETRIABLE_STATUS_CODES_def MAX_RETRIES_def get_or_def
          upload_failed_def post_video_def post_video_try_def post_video_body_def
          empty_settings_def publish_failed_def)
qed

text \<open>
  C9. The state issued by \<open>initiate_oauth\<close> is the text of the user's id, \<open>:youtube:\<close>
  and the text of the nonce, and the callback's parsing of it gives back that user id, the
  platform \<open>youtube\<close> and the nonce. This holds for a \<open>uuid\<close> module in which
  \<open>uuid.UUID(str(u))\<close> is \<open>u\<close> and the text of a UUID has no colon. A state that does not
  split on colons into exactly three parts ends the callback with an error redirect, the
  table untouched and no request sent.
\<close>

theorem state_round_trip:
  "(truthy client_id \<and> uuid_UUID lib (uuid_str lib user_id) = Inr user_id
      \<and> CHR '':'' \<notin> set (uuid_str lib user_id) \<and> CHR '':'' \<notin> set (uuid_str lib nonce)
    \<longrightarrow> (\<exists>reply. initiate_oauth lib client_id ''youtube'' user_id nonce = Inr (Some reply)
           \<and> ar_state reply = uuid_str lib user_id @ '':youtube:'' @ uuid_str lib nonce
           \<and> parse_state lib (ar_state reply) = Inr (user_id, ''youtube'', uuid_str lib nonce)))
   \<and> (length (py_split (CHR '':'') state) \<noteq> 3
    \<longrightarrow> (\<exists>msg. youtube_oauth_callback lib w code (Some state) err db
                 = (db, [], ErrorRedirect msg)))"
proof (intro conjI impI)
  assume a: "truthy client_id \<and> uuid_UUID lib (uuid_str lib user_id) = Inr user_id
      \<and> CHR '':'' \<notin> set (uuid_str lib user_id) \<and> CHR '':'' \<notin> set (uuid_str lib nonce)"
  then have "parse_state lib (oauth_state lib user_id nonce)
             = Inr (user_id, ''youtube'', uuid_str lib nonce)"
    by (simp add: parse_state_oauth_state)
  with a show "\<exists>reply. initiate_oauth lib client_id ''youtube'' user_id nonce = Inr (Some reply)
           \<and> ar_state reply = uuid_str lib user_id @ '':youtube:'' @ uuid_str lib nonce
           \<and> parse_state lib (ar_state reply) = Inr (user_id, ''youtube'', uuid_str lib nonce)"
    by (simp add: initiate_oauth_def Let_def) (simp add: oauth_state_def)
next
  assume "length (py_split (CHR '':'') state) \<noteq> 3"
  then show "\<exists>msg. youtube_oauth_callback lib w code (Some state) err db
                 = (db, [], ErrorRedirect msg)"
    by (rule callback_wrong_parts)
qed

theorem state_round_trip_witness:
  "(truthy (Some ''client-1'')
    \<and> uuid_UUID text_uuid_module (uuid_str text_uuid_module ''123e4567-e89b-12d3-a456-426614174000'')
        = Inr ''123e4567-e89b-12d3-a456-426614174000''
    \<and> CHR '':'' \<notin> set (uuid_str text_uuid_module ''123e4567-e89b-12d3-a456-426614174000'')
    \<and> CHR '':'' \<notin> set (uuid_str text_uuid_module ''9f1c2d3e-0000-4000-8000-aabbccddeeff''))
   \<and> (\<exists>reply. initiate_oauth text_uuid_module (Some ''client-1'') ''youtube''
                 ''123e4567-e89b-12d3-a456-426614174000'' ''9f1c2d3e-0000-4000-8000-aabbccddeeff''
               = Inr (Some reply)
         \<and> ar_state reply = ''123e4567-e89b-12d3-a456-426614174000:youtube:9f1c2d3e-0000-4000-8000-aabbccddeeff''
         \<and> parse_state text_uuid_module (ar_state reply)
           = Inr (''123e4567-e89b-12d3-a456-426614174000'', ''youtube'',
                  ''9f1c2d3e-0000-4000-8000-aabbccddeeff''))
   \<and> length (py_split (CHR '':'') ''no-colon-here'') \<noteq> 3
   \<and> (\<exists>msg. youtube_oauth_callback text_uuid_module (linking_world ''tok'' 0 ''id-1'')
               (Some ''code'') (Some ''no-colon-here'') None []
             = ([], [], ErrorRedirect msg))"
proof -
  have h1: "truthy (Some ''client-1'')
    \<and> uuid_UUID text_uuid_module (uuid_str text_uuid_module ''123e4567-e89b-12d3-a456-426614174000'')
        = Inr ''123e4567-e89b-12d3-a456-426614174000''
    \<and> CHR '':'' \<notin> set (uuid_str text_uuid_module ''123e4567-e89b-12d3-a456-426614174000'')
    \<and> CHR '':'' \<notin> set (uuid_str text_uuid_module ''9f1c2d3e-0000-4000-8000-aabbccddeeff'')"
    by (simp add: truthy_def text_uuid_module_def)
  have h2: "length (py_split (CHR '':'') ''no-colon-here'') \<noteq> 3"
    by (simp add: py_split_no_sep)
  from h1 h2 state_round_trip
      [where lib = text_uuid_module and client_id = "Some ''client-1''"
         and user_id = "''123e4567-e89b-12d3-a456-426614174000''"
         and nonce = "''9f1c2d3e-0000-4000-8000-aabbccddeeff''"
         and state = "''no-colon-here''" and w = "linking_world ''tok'' 0 ''id-1''"
         and code = "Some ''code''" and err = None and db = "[]"]
  show ?thesis
    by (simp add: text_uuid_module_def)
qed

text \<open>
  C10. A request for a new account whose \<open>platform_metadata\<close> is \<open>null\<close> is committed, and
  then the construction of the response fails inside the same \<open>try\<close> block: the handler
  calls \<open>db.rollback()\<close>, which undoes nothing after the commit, and answers 400
  \<open>Failed to add account\<close> while the table holds the new row.
\<close>

theorem failed_add_keeps_row:
  "ac_platform_metadata (example_account_data\<lparr> ac_platform_metadata := None \<rparr>) = None
   \<and> add_social_account_manual null_metadata_world
        (example_account_data\<lparr> ac_platform_metadata := None \<rparr>) example_user []
     = ([\<lparr> access_token = ''0123456789abcdef'', refresh_token = None, token_expires_at = None,
           sa_id = ''row-1'', sa_user_id = example_user, sa_platform = ''youtube'',
           sa_platform_user_id = None, sa_platform_username = Some ''my_channel'',
           sa_platform_email = None, sa_display_name = None, sa_primary_id = None,
           sa_platform_metadata = None, sa_is_active = True, sa_is_verified = False,
           sa_account_status = ''active'', sa_connected_at = Some 100,
           sa_last_used_at = Some 100, sa_last_token_refresh = Some 100 \<rparr>],
        Inl (HTTPException 400
               ''Failed to add account: 1 validation error for SocialAccountResponse''))"
  by (simp add: add_social_account_manual_def null_metadata_world_def example_account_data_def
        PLATFORM_CONFIGS_def manual_account_def)

end
